theory Spec2Isabelle
  imports Complex_Main "HOL-Library.Sublist"
begin

section \<open>Python string primitives\<close>

text \<open>
  Python strings are modelled as \<^typ>\<open>string\<close>; the model covers ASCII text, where one
  \<^typ>\<open>char\<close> is one code point and \<open>str.lower\<close>, \<open>str.strip\<close> and \<open>str.isalpha\<close>
  act as defined below. Python floats are idealised as \<^typ>\<open>real\<close>: the formulas are
  stated exactly, without rounding.
\<close>

definition is_upper_char :: "char \<Rightarrow> bool" where
  "is_upper_char c = (65 \<le> (of_char c :: nat) \<and> (of_char c :: nat) \<le> 90)"

definition is_lower_char :: "char \<Rightarrow> bool" where
  "is_lower_char c = (97 \<le> (of_char c :: nat) \<and> (of_char c :: nat) \<le> 122)"

definition lower_char :: "char \<Rightarrow> char" where
  "lower_char c = (if is_upper_char c then char_of ((of_char c :: nat) + 32) else c)"

definition lower :: "string \<Rightarrow> string" where
  \<comment> \<open>\<open>str.lower()\<close>\<close>
  "lower s = map lower_char s"

definition is_space_char :: "char \<Rightarrow> bool" where
  \<comment> \<open>the ASCII characters for which \<open>str.isspace()\<close> holds: TAB, LF, VT, FF, CR,
      FS, GS, RS, US and the blank\<close>
  "is_space_char c = ((of_char c :: nat) \<in> {9, 10, 11, 12, 13, 28, 29, 30, 31, 32})"

definition strip :: "string \<Rightarrow> string" where
  \<comment> \<open>\<open>str.strip()\<close>\<close>
  "strip s = rev (dropWhile is_space_char (rev (dropWhile is_space_char s)))"

definition isalpha :: "string \<Rightarrow> bool" where
  \<comment> \<open>\<open>str.isalpha()\<close>: at least one character, and all of them letters\<close>
  "isalpha s = (s \<noteq> [] \<and> list_all (\<lambda>c. is_upper_char c \<or> is_lower_char c) s)"

definition endswith :: "string \<Rightarrow> string \<Rightarrow> bool" where
  "endswith s suf = suffix suf s"

definition startswith :: "string \<Rightarrow> string \<Rightarrow> bool" where
  "startswith s pre = prefix pre s"

function str_count :: "string \<Rightarrow> string \<Rightarrow> nat" where
  \<comment> \<open>\<open>s.count(sub)\<close>: the number of non-overlapping occurrences of \<open>sub\<close> in \<open>s\<close>,
      scanning from the left\<close>
  "str_count s sub =
     (if sub = [] then length s + 1
      else if s = [] then 0
      else if prefix sub s then 1 + str_count (drop (length sub) s) sub
      else str_count (tl s) sub)"
  by pat_completeness auto
termination
  by (relation "measure (\<lambda>(s, sub). length s)") auto

declare str_count.simps [simp del]

section \<open>Syllable estimator (utils/text\_processing.py)\<close>

primrec syllable_loop :: "string \<Rightarrow> nat \<Rightarrow> bool \<Rightarrow> nat" where
  \<comment> \<open>the \<open>for char in word\<close> loop, with its two variables \<open>count\<close> and \<open>prev_vowel\<close>\<close>
  "syllable_loop [] count prev_vowel = count"
| "syllable_loop (c # cs) count prev_vowel =
     (let is_vowel = (c \<in> set ''aeiouy'')
      in syllable_loop cs (if is_vowel \<and> \<not> prev_vowel then count + 1 else count) is_vowel)"

definition count_syllables :: "string \<Rightarrow> nat" where
  "count_syllables word0 =
     (let word = strip (lower word0)
      in if length word \<le> 3 then 1
         else
           let count = syllable_loop word 0 False;
               count = (if endswith word ''e'' \<and> count > 1 then count - 1 else count)
           in max 1 count)"

section \<open>External collaborators and module state (utils/nlp\_setup.py)\<close>

text \<open>
  The tokenizer, the sentence splitter, the dependency parser, the stop word list, the
  sense database and the grammar checker are not part of the repository. They are taken
  as parameters: a record of functions that give the same output for the same input.
\<close>

record token =
  tok_text :: string
  is_alpha :: bool
  pos :: string
  dep :: string
  head :: nat
  \<comment> \<open>\<open>token.head\<close>, as the index of the head within the token's sentence; the root
      of a sentence is its own head\<close>

type_synonym sentence = "token list"

record sense =
  primary_lemma :: string
  \<comment> \<open>\<open>synset.lemmas()[0].name()\<close>\<close>
  min_depth :: nat

datatype pyerror = LanguageToolError | TypeError | ValueError
  \<comment> \<open>the exception a failed call of the grammar checker raises, and the two a truth
      test can raise\<close>

record adapters =
  word_tokenize :: "string \<Rightarrow> string list"
  sent_tokenize :: "string \<Rightarrow> string list"
  spacy_parse :: "string \<Rightarrow> sentence list"
  \<comment> \<open>\<open>nlp(text)\<close>: the parsed document as its sentences \<open>doc.sents\<close>\<close>
  english_stopwords :: "string list"
  synsets :: "string \<Rightarrow> sense list"
  language_tool_check :: "string \<Rightarrow> pyerror + string list"
  \<comment> \<open>\<open>tool.check(text)\<close>: the list of matches, or the exception it raises\<close>

record world =
  nlp_loaded :: bool
  \<comment> \<open>the module global \<open>_nlp\<close> is not \<open>None\<close>\<close>
  stopwords_loaded :: bool
  \<comment> \<open>the module global \<open>_stopwords\<close> is not \<open>None\<close>\<close>
  language_tool_loaded :: bool
  \<comment> \<open>the module global \<open>_language_tool\<close> is not \<open>None\<close>\<close>
  check_requests :: "string list"
  \<comment> \<open>the texts sent to the grammar checking service so far, oldest first\<close>

definition get_nlp :: "adapters \<Rightarrow> world \<Rightarrow> (string \<Rightarrow> sentence list) \<times> world" where
  "get_nlp ad w =
     (let w = (if \<not> nlp_loaded w then w\<lparr>nlp_loaded := True\<rparr> else w)
      in (spacy_parse ad, w))"

definition get_stopwords :: "adapters \<Rightarrow> world \<Rightarrow> string set \<times> world" where
  "get_stopwords ad w =
     (let w = (if \<not> stopwords_loaded w then w\<lparr>stopwords_loaded := True\<rparr> else w)
      in (set (english_stopwords ad), w))"

definition get_language_tool ::
  "adapters \<Rightarrow> world \<Rightarrow> (string \<Rightarrow> pyerror + string list) \<times> world" where
  \<comment> \<open>\<open>_get_language_tool\<close> of features/accuracy.py\<close>
  "get_language_tool ad w =
     (let w = (if \<not> language_tool_loaded w then w\<lparr>language_tool_loaded := True\<rparr> else w)
      in (language_tool_check ad, w))"

section \<open>Clausal features and the T-unit segmenter (features/clausal.py)\<close>

definition children :: "sentence \<Rightarrow> nat \<Rightarrow> token list" where
  \<comment> \<open>\<open>token.children\<close> of the token at index \<open>h\<close>: the other tokens whose head it is\<close>
  "children sent h = map snd (filter (\<lambda>(j, c). head c = h \<and> j \<noteq> h) (enumerate 0 sent))"

definition is_t_unit_boundary :: "sentence \<Rightarrow> token \<Rightarrow> bool" where
  \<comment> \<open>a coordinating conjunction whose head is a verb with a verbal conjunct among its
      children; a head index outside the sentence, which the parser never produces,
      gives no boundary\<close>
  "is_t_unit_boundary sent tok =
     (dep tok = ''cc'' \<and> head tok < length sent \<and> pos (sent ! head tok) = ''VERB'' \<and>
      list_ex (\<lambda>child. dep child = ''conj'' \<and> pos child = ''VERB'')
        (children sent (head tok)))"

definition dependent_clause_labels :: "string list" where
  "dependent_clause_labels = [''advcl'', ''relcl'', ''ccomp'', ''xcomp'', ''acl'']"

fun token_loop ::
  "sentence \<Rightarrow> token list \<Rightarrow> token list \<Rightarrow> nat \<Rightarrow> nat list \<Rightarrow> nat \<Rightarrow>
   token list \<times> nat \<times> nat list \<times> nat" where
  \<comment> \<open>the \<open>for token in sent\<close> loop over the remaining tokens, with the variables
      \<open>current_t_unit\<close>, \<open>sent_dep_clauses\<close>, \<open>t_unit_lengths\<close> and \<open>dep_clause_count\<close>\<close>
  "token_loop sent [] current_t_unit sent_dep_clauses t_unit_lengths dep_clause_count =
     (current_t_unit, sent_dep_clauses, t_unit_lengths, dep_clause_count)"
| "token_loop sent (tok # toks) current_t_unit sent_dep_clauses t_unit_lengths dep_clause_count =
     (let current_t_unit = current_t_unit @ [tok];
          sent_dep_clauses =
            (if dep tok \<in> set dependent_clause_labels then sent_dep_clauses + 1
             else sent_dep_clauses)
      in if is_t_unit_boundary sent tok then
           (if current_t_unit \<noteq> [] then
              token_loop sent toks [] 0 (t_unit_lengths @ [length current_t_unit])
                (dep_clause_count + sent_dep_clauses)
            else token_loop sent toks current_t_unit sent_dep_clauses t_unit_lengths
                   dep_clause_count)
         else token_loop sent toks current_t_unit sent_dep_clauses t_unit_lengths
                dep_clause_count)"

definition sentence_step :: "sentence \<Rightarrow> nat list \<times> nat \<Rightarrow> nat list \<times> nat" where
  \<comment> \<open>one round of \<open>for sent in doc.sents\<close>\<close>
  "sentence_step sent acc =
     (case token_loop sent sent [] 0 (fst acc) (snd acc) of
        (current_t_unit, sent_dep_clauses, t_unit_lengths, dep_clause_count) \<Rightarrow>
          if current_t_unit \<noteq> [] then
            (t_unit_lengths @ [length current_t_unit], dep_clause_count + sent_dep_clauses)
          else (t_unit_lengths, dep_clause_count))"

definition extract_t_units :: "adapters \<Rightarrow> string \<Rightarrow> world \<Rightarrow> (nat list \<times> nat) \<times> world" where
  \<comment> \<open>\<open>_extract_t_units\<close>\<close>
  "extract_t_units ad text w =
     (case get_nlp ad w of
        (nlp, w) \<Rightarrow> (fold sentence_step (nlp text) ([], 0), w))"

definition num_t_units :: "adapters \<Rightarrow> string \<Rightarrow> world \<Rightarrow> nat \<times> world" where
  "num_t_units ad text w =
     (case extract_t_units ad text w of
        ((t_unit_lengths, _), w) \<Rightarrow> (length t_unit_lengths, w))"

definition mean_length_t_unit :: "adapters \<Rightarrow> string \<Rightarrow> world \<Rightarrow> real \<times> world" where
  "mean_length_t_unit ad text w =
     (case extract_t_units ad text w of
        ((t_unit_lengths, _), w) \<Rightarrow>
          (if t_unit_lengths = [] then 0
           else real (sum_list t_unit_lengths) / real (length t_unit_lengths), w))"

definition dependent_clauses_per_t_unit :: "adapters \<Rightarrow> string \<Rightarrow> world \<Rightarrow> real \<times> world" where
  "dependent_clauses_per_t_unit ad text w =
     (case extract_t_units ad text w of
        ((t_unit_lengths, dep_count), w) \<Rightarrow>
          (if t_unit_lengths = [] then 0
           else real dep_count / real (length t_unit_lengths), w))"

text \<open>
  The segmenter records only the length of each T-unit. \<open>t_unit_spans\<close> is the same
  walk over a sentence that keeps the tokens of each unit it closes, to state which
  token goes to which unit.
\<close>

fun spans_loop :: "sentence \<Rightarrow> token list \<Rightarrow> token list \<Rightarrow> token list list" where
  "spans_loop sent [] current_t_unit = (if current_t_unit \<noteq> [] then [current_t_unit] else [])"
| "spans_loop sent (tok # toks) current_t_unit =
     (let current_t_unit = current_t_unit @ [tok]
      in if is_t_unit_boundary sent tok \<and> current_t_unit \<noteq> [] then
           current_t_unit # spans_loop sent toks []
         else spans_loop sent toks current_t_unit)"

definition t_unit_spans :: "sentence \<Rightarrow> token list list" where
  "t_unit_spans sent = spans_loop sent sent []"

section \<open>Surface features (features/surface.py)\<close>

definition word_count :: "adapters \<Rightarrow> string \<Rightarrow> nat" where
  "word_count ad text = (let tokens = word_tokenize ad text in length (filter isalpha tokens))"

definition avg_sentence_length :: "adapters \<Rightarrow> string \<Rightarrow> real" where
  "avg_sentence_length ad text =
     (let sentences = sent_tokenize ad text
      in if sentences = [] then 0
         else
           let lengths = map (\<lambda>s. length (filter isalpha (word_tokenize ad s))) sentences
           in real (sum_list lengths) / real (length lengths))"

definition num_complex_sentences :: "adapters \<Rightarrow> string \<Rightarrow> int \<Rightarrow> nat" where
  "num_complex_sentences ad text threshold =
     (let sentences = sent_tokenize ad text
      in fold (\<lambda>sent count.
                 let words = filter isalpha (word_tokenize ad sent)
                 in if int (length words) > threshold then count + 1 else count)
           sentences 0)"

section \<open>Lexical features (features/lexical.py)\<close>

definition lexical_diversity :: "adapters \<Rightarrow> string \<Rightarrow> real" where
  "lexical_diversity ad text =
     (let tokens = map lower (filter isalpha (word_tokenize ad text))
      in if tokens = [] then 0 else real (card (set tokens)) / real (length tokens))"

definition content_tokens :: "adapters \<Rightarrow> string set \<Rightarrow> string \<Rightarrow> string list" where
  \<comment> \<open>\<open>[t.lower() for t in word_tokenize(text) if t.isalpha() and t.lower() not in stop_words]\<close>\<close>
  "content_tokens ad stop_words text =
     map lower (filter (\<lambda>t. isalpha t \<and> lower t \<notin> stop_words) (word_tokenize ad text))"

definition vocabulary_sophistication :: "adapters \<Rightarrow> string \<Rightarrow> world \<Rightarrow> real \<times> world" where
  "vocabulary_sophistication ad text w =
     (case get_stopwords ad w of
        (stop_words, w) \<Rightarrow>
          (let tokens = content_tokens ad stop_words text
           in if tokens = [] then 0
              else
                let depths =
                      fold (\<lambda>tok depths.
                              let syns = synsets ad tok
                              in if syns \<noteq> [] then
                                   let token_depths = map min_depth syns
                                   in depths @
                                      [real (sum_list token_depths) / real (length token_depths)]
                                 else depths)
                        tokens []
                in if depths = [] then 0
                   else
                     let avg_depth = sum_list depths / real (length depths)
                     in min 1 (avg_depth / 10),
           w))"

definition polysemy_word :: "adapters \<Rightarrow> string \<Rightarrow> world \<Rightarrow> nat \<times> world" where
  "polysemy_word ad text w =
     (case get_stopwords ad w of
        (stop_words, w) \<Rightarrow>
          (let tokens = content_tokens ad stop_words text
           in fold (\<lambda>tok count. if length (synsets ad tok) > 1 then count + 1 else count)
                tokens 0,
           w))"

section \<open>Syntactic features (features/syntactic.py)\<close>

definition complex_starters :: "string list" where
  "complex_starters =
     [''if'', ''when'', ''although'', ''because'', ''while'', ''since'', ''after'', ''before'']"

definition sentence_type :: "adapters \<Rightarrow> string \<Rightarrow> string" where
  \<comment> \<open>the label the body of the \<open>for sent in sentences\<close> loop adds to \<open>types\<close>\<close>
  "sentence_type ad sent =
     (let sent_stripped = strip sent
      in if endswith sent_stripped ''?'' then ''question''
         else if endswith sent_stripped ''!'' then ''exclamation''
         else if list_ex (\<lambda>m. startswith (lower sent_stripped) m) complex_starters
           then ''complex''
         else if CHR '','' \<in> set sent \<and> length (word_tokenize ad sent) > 10 then ''compound''
         else ''simple'')"

definition sentence_type_diversity :: "adapters \<Rightarrow> string \<Rightarrow> real" where
  "sentence_type_diversity ad text =
     (let sentences = sent_tokenize ad text
      in if sentences = [] then 0
         else
           let types = fold (\<lambda>sent types. insert (sentence_type ad sent) types) sentences {}
           in real (card types) / 5)"

definition syntactic_simplicity :: "adapters \<Rightarrow> string \<Rightarrow> real" where
  "syntactic_simplicity ad text =
     (let sentences = sent_tokenize ad text
      in if sentences = [] then 0
         else
           let lengths = map (\<lambda>s. length (word_tokenize ad s)) sentences;
               avg_len = real (sum_list lengths) / real (length lengths)
           in if avg_len > 0 then 1 / (1 + avg_len / 15) else 0)"

definition information_density :: "adapters \<Rightarrow> string \<Rightarrow> world \<Rightarrow> real \<times> world" where
  "information_density ad text w =
     (case get_stopwords ad w of
        (stop_words, w) \<Rightarrow>
          (let tokens = map lower (filter isalpha (word_tokenize ad text))
           in if tokens = [] then 0
              else
                let content_words = filter (\<lambda>t. t \<notin> stop_words) tokens
                in real (length content_words) / real (length tokens),
           w))"

section \<open>Accuracy features (features/accuracy.py)\<close>

definition error_count :: "adapters \<Rightarrow> string \<Rightarrow> world \<Rightarrow> (pyerror + nat) \<times> world" where
  \<comment> \<open>the call \<open>tool.check(text)\<close> is logged in \<open>check_requests\<close>; an exception it
      raises is not caught\<close>
  "error_count ad text w =
     (if text = [] \<or> length text < 10 then (Inr 0, w)
      else
        case get_language_tool ad w of
          (tool, w) \<Rightarrow>
            (let w = w\<lparr>check_requests := check_requests w @ [text]\<rparr>
             in case tool text of
                  Inl e \<Rightarrow> (Inl e, w)
                | Inr matches \<Rightarrow> (Inr (length matches), w)))"

definition context_sensitive_count :: "adapters \<Rightarrow> string \<Rightarrow> world \<Rightarrow> nat \<times> world" where
  "context_sensitive_count ad text w =
     (case get_nlp ad w of
        (nlp, w) \<Rightarrow>
          (let doc = concat (nlp text)
           in fold (\<lambda>tok count.
                      if \<not> is_alpha tok then count
                      else
                        let syns = synsets ad (lower (tok_text tok))
                        in if syns \<noteq> [] then
                             let primary = lower (primary_lemma (hd syns))
                             in if primary \<noteq> lower (tok_text tok) then count + 1 else count
                           else count)
                doc 0,
           w))"

section \<open>Cohesion features (features/cohesion.py)\<close>

definition sentence_content_set :: "adapters \<Rightarrow> string set \<Rightarrow> string \<Rightarrow> string set" where
  \<comment> \<open>\<open>{t.lower() for t in word_tokenize(s) if t.isalpha() and t.lower() not in stop_words}\<close>\<close>
  "sentence_content_set ad stop_words s = set (content_tokens ad stop_words s)"

fun overlaps_loop :: "adapters \<Rightarrow> string set \<Rightarrow> string list \<Rightarrow> real list \<Rightarrow> real list" where
  \<comment> \<open>\<open>for i in range(len(sentences) - 1)\<close>, over the sentences from index \<open>i\<close> on\<close>
  "overlaps_loop ad stop_words (s1 # s2 # rest) overlaps =
     (let tokens1 = sentence_content_set ad stop_words s1;
          tokens2 = sentence_content_set ad stop_words s2
      in if tokens1 = {} \<or> tokens2 = {} then overlaps_loop ad stop_words (s2 # rest) overlaps
         else
           let intersection = card (tokens1 \<inter> tokens2);
               union = card (tokens1 \<union> tokens2)
           in overlaps_loop ad stop_words (s2 # rest)
                (if union > 0 then overlaps @ [real intersection / real union] else overlaps))"
| "overlaps_loop ad stop_words sentences overlaps = overlaps"

definition referential_cohesion :: "adapters \<Rightarrow> string \<Rightarrow> world \<Rightarrow> real \<times> world" where
  "referential_cohesion ad text w =
     (let sentences = sent_tokenize ad text
      in if length sentences \<le> 1 then (0, w)
         else
           case get_stopwords ad w of
             (stop_words, w) \<Rightarrow>
               (let overlaps = overlaps_loop ad stop_words sentences []
                in if overlaps \<noteq> [] then sum_list overlaps / real (length overlaps) else 0,
                w))"

definition connectives :: "string list" where
  "connectives =
     [''because'', ''therefore'', ''thus'', ''consequently'', ''so'',
      ''although'', ''though'', ''however'', ''but'', ''despite'',
      ''first'', ''second'', ''next'', ''then'', ''finally'', ''last'',
      ''furthermore'', ''moreover'', ''additionally'', ''also'']"

definition connective_count :: "string \<Rightarrow> nat" where
  \<comment> \<open>\<open>sum(text_lower.count(f" {c} ") for c in connectives)\<close>\<close>
  "connective_count text_lower =
     sum_list (map (\<lambda>c. str_count text_lower ('' '' @ c @ '' '')) connectives)"

definition deep_cohesion :: "adapters \<Rightarrow> string \<Rightarrow> real" where
  "deep_cohesion ad text =
     (let text_lower = lower text;
          words = filter isalpha (word_tokenize ad text)
      in if words = [] then 0
         else
           let conn_count = connective_count text_lower
           in real conn_count / real (length words))"

section \<open>Readability features (features/readability.py)\<close>

definition flesch_kincaid_grade_level :: "adapters \<Rightarrow> string \<Rightarrow> real" where
  "flesch_kincaid_grade_level ad text =
     (let sentences = sent_tokenize ad text;
          words = filter isalpha (word_tokenize ad text)
      in if sentences = [] \<or> words = [] then 0
         else
           let word_count = real (length words);
               sentence_count = real (length sentences);
               syllable_count = real (sum_list (map count_syllables words));
               grade = 0.39 * (word_count / sentence_count) +
                       11.8 * (syllable_count / word_count) - 15.59
           in max 0 grade)"

definition text_ease :: "adapters \<Rightarrow> string \<Rightarrow> world \<Rightarrow> real \<times> world" where
  "text_ease ad text w =
     (let fk_grade = flesch_kincaid_grade_level ad text;
          grade_ease = 1 - min 1 (max 0 ((fk_grade - 3) / 15));
          synt_simp = syntactic_simplicity ad text
      in case referential_cohesion ad text w of
           (ref_coh, w) \<Rightarrow>
             (let deep_coh = deep_cohesion ad text;
                  word_concrete = 0.5;
                  weights = [0.25, 0.25, 0.20, 0.15, 0.15];
                  components = [grade_ease, synt_simp, word_concrete, ref_coh, deep_coh]
              in sum_list (map (\<lambda>(wt, c). wt * c) (zip weights components)),
              w))"

section \<open>Variability features (features/variability.py)\<close>

definition np_var :: "real list \<Rightarrow> real" where
  \<comment> \<open>\<open>numpy.var\<close>: the population variance\<close>
  "np_var xs =
     (let n = real (length xs);
          m = sum_list xs / n
      in sum_list (map (\<lambda>x. (x - m)\<^sup>2) xs) / n)"

definition word_length_variance :: "adapters \<Rightarrow> string \<Rightarrow> real" where
  "word_length_variance ad text =
     (let words = filter isalpha (word_tokenize ad text)
      in if words = [] then 0
         else
           let lengths = map length words
           in np_var (map real lengths))"

definition syllable_variance :: "adapters \<Rightarrow> string \<Rightarrow> real" where
  "syllable_variance ad text =
     (let words = filter isalpha (word_tokenize ad text)
      in if words = [] then 0
         else
           let syllables = map count_syllables words
           in np_var (map real syllables))"

section \<open>The feature extractor (extractor.py)\<close>

datatype py_obj = PyNone | PyBool bool | PyNum int | PyStr string | PyOther "pyerror + bool"
  \<comment> \<open>what a caller can pass as \<open>text\<close>. \<open>PyOther r\<close> is any other object, given by what
      its truth test \<open>bool(x)\<close> does: a list or a float has a truth value, \<open>pandas.NA\<close>
      raises \<open>TypeError\<close>, a numpy array of several elements raises \<open>ValueError\<close>\<close>

fun truthy :: "py_obj \<Rightarrow> pyerror + bool" where
  \<comment> \<open>the truth test behind \<open>not text\<close>\<close>
  "truthy PyNone = Inr False"
| "truthy (PyBool b) = Inr b"
| "truthy (PyNum n) = Inr (n \<noteq> 0)"
| "truthy (PyStr s) = Inr (s \<noteq> [])"
| "truthy (PyOther r) = r"

fun isinstance_str :: "py_obj \<Rightarrow> bool" where
  "isinstance_str (PyStr s) = True"
| "isinstance_str x = False"

datatype pyval = PyInt int | PyFloat real
  \<comment> \<open>a feature value\<close>

type_synonym feature_record = "(string \<times> pyval) list"
  \<comment> \<open>a \<open>dict\<close>, as its items in insertion order\<close>

fun dict_setitem :: "('k \<times> 'v) list \<Rightarrow> 'k \<Rightarrow> 'v \<Rightarrow> ('k \<times> 'v) list" where
  \<comment> \<open>\<open>d[k] = v\<close>: a key already present keeps its place and takes the new value\<close>
  "dict_setitem [] k v = [(k, v)]"
| "dict_setitem ((k', v') # d) k v =
     (if k' = k then (k, v) # d else (k', v') # dict_setitem d k v)"

definition dict_of_items :: "('k \<times> 'v) list \<Rightarrow> ('k \<times> 'v) list" where
  \<comment> \<open>a dictionary display or comprehension, item by item\<close>
  "dict_of_items items = fold (\<lambda>(k, v) d. dict_setitem d k v) items []"

definition FEATURE_NAMES :: "string list" where
  "FEATURE_NAMES =
     [''word_count'', ''avg_sentence_length'', ''num_complex_sentences'',
      ''lexical_diversity'', ''vocabulary_sophistication'', ''polysemy_word'',
      ''sentence_type_diversity'', ''syntactic_simplicity'', ''information_density'',
      ''error_count'', ''context_sensitive_count'',
      ''flesch_kincaid_grade_level'', ''text_ease'',
      ''referential_cohesion'', ''deep_cohesion'',
      ''word_length_variance'', ''syllable_variance'',
      ''num_t_units'', ''mean_length_t_unit'', ''dependent_clauses_per_t_unit'']"

definition compute_features ::
  "adapters \<Rightarrow> string \<Rightarrow> world \<Rightarrow> (pyerror + feature_record) \<times> world" where
  \<comment> \<open>the dictionary display \<open>features = {...}\<close>: its values are computed in the order
      written, and an exception ends the computation\<close>
  "compute_features ad text w =
     (let v1 = word_count ad text;
          v2 = avg_sentence_length ad text;
          v3 = num_complex_sentences ad text 15;
          v4 = lexical_diversity ad text;
          (v5, w) = vocabulary_sophistication ad text w;
          (v6, w) = polysemy_word ad text w;
          v7 = sentence_type_diversity ad text;
          v8 = syntactic_simplicity ad text;
          (v9, w) = information_density ad text w;
          (r10, w) = error_count ad text w
      in case r10 of
           Inl e \<Rightarrow> (Inl e, w)
         | Inr v10 \<Rightarrow>
             (let (v11, w) = context_sensitive_count ad text w;
                  v12 = flesch_kincaid_grade_level ad text;
                  (v13, w) = text_ease ad text w;
                  (v14, w) = referential_cohesion ad text w;
                  v15 = deep_cohesion ad text;
                  v16 = word_length_variance ad text;
                  v17 = syllable_variance ad text;
                  (v18, w) = num_t_units ad text w;
                  (v19, w) = mean_length_t_unit ad text w;
                  (v20, w) = dependent_clauses_per_t_unit ad text w
              in (Inr (dict_of_items
                    [(''word_count'', PyInt (int v1)),
                     (''avg_sentence_length'', PyFloat v2),
                     (''num_complex_sentences'', PyInt (int v3)),
                     (''lexical_diversity'', PyFloat v4),
                     (''vocabulary_sophistication'', PyFloat v5),
                     (''polysemy_word'', PyInt (int v6)),
                     (''sentence_type_diversity'', PyFloat v7),
                     (''syntactic_simplicity'', PyFloat v8),
                     (''information_density'', PyFloat v9),
                     (''error_count'', PyInt (int v10)),
                     (''context_sensitive_count'', PyInt (int v11)),
                     (''flesch_kincaid_grade_level'', PyFloat v12),
                     (''text_ease'', PyFloat v13),
                     (''referential_cohesion'', PyFloat v14),
                     (''deep_cohesion'', PyFloat v15),
                     (''word_length_variance'', PyFloat v16),
                     (''syllable_variance'', PyFloat v17),
                     (''num_t_units'', PyInt (int v18)),
                     (''mean_length_t_unit'', PyFloat v19),
                     (''dependent_clauses_per_t_unit'', PyFloat v20)]),
                  w)))"

definition extract_features ::
  "adapters \<Rightarrow> string \<Rightarrow> py_obj \<Rightarrow> world \<Rightarrow> (pyerror + feature_record) \<times> world" where
  \<comment> \<open>\<open>FeatureExtractor(prefix).extract(text)\<close>; \<open>extract\<close> alone is a keyword of
      Isabelle, and \<open>self.prefix\<close> is \<open>pfx\<close>. \<open>not text\<close> is evaluated first, and an
      exception of its truth test leaves \<open>extract\<close>. Only a non-empty string passes the
      guard, so the last case is never reached\<close>
  "extract_features ad pfx x w =
     (case truthy x of
        Inl e \<Rightarrow> (Inl e, w)
      | Inr t \<Rightarrow>
          if \<not> t \<or> \<not> isinstance_str x then
            (Inr (dict_of_items (map (\<lambda>name. (pfx @ name, PyInt 0)) FEATURE_NAMES)), w)
          else
            case x of
              PyStr text \<Rightarrow>
                (case compute_features ad text w of
                   (Inl e, w) \<Rightarrow> (Inl e, w)
                 | (Inr features, w) \<Rightarrow>
                     (Inr (if pfx \<noteq> [] then
                             dict_of_items (map (\<lambda>(k, v). (pfx @ k, v)) features)
                           else features),
                      w))
            | _ \<Rightarrow> (Inr [], w))"

definition globals_of :: "world \<Rightarrow> bool \<times> bool \<times> bool" where
  \<comment> \<open>the state the program itself keeps between calls: its three module globals\<close>
  "globals_of w = (nlp_loaded w, stopwords_loaded w, language_tool_loaded w)"

definition value_of :: "(world \<Rightarrow> 'a \<times> world) \<Rightarrow> 'a" where
  \<comment> \<open>the value a computation returns when no module global is loaded yet\<close>
  "value_of m =
     fst (m \<lparr>nlp_loaded = False, stopwords_loaded = False, language_tool_loaded = False,
             check_requests = []\<rparr>)"

section \<open>Readings of the specification, for comparison with the code\<close>

definition spec_clamp :: "real \<Rightarrow> real \<Rightarrow> real \<Rightarrow> real" where
  \<comment> \<open>\<open>clamp(x, lo, hi)\<close>\<close>
  "spec_clamp x lo hi = (if x < lo then lo else if hi < x then hi else x)"

fun spec_occurrences :: "string \<Rightarrow> string \<Rightarrow> nat" where
  \<comment> \<open>the number of positions of \<open>s\<close> at which \<open>sub\<close> occurs\<close>
  "spec_occurrences [] sub = 0"
| "spec_occurrences (c # cs) sub =
     (if prefix sub (c # cs) then 1 else 0) + spec_occurrences cs sub"

definition spec_connective_count :: "string \<Rightarrow> nat" where
  \<comment> \<open>every occurrence of a connective as a whole word between two blanks\<close>
  "spec_connective_count text_lower =
     sum_list (map (\<lambda>c. spec_occurrences text_lower ('' '' @ c @ '' '')) connectives)"

definition spec_deep_cohesion :: "adapters \<Rightarrow> string \<Rightarrow> real" where
  \<comment> \<open>the occurrences of connectives as whole words between blanks of the lower-cased
      text, over the number of alphabetic words\<close>
  "spec_deep_cohesion ad text =
     (let words = filter isalpha (word_tokenize ad text)
      in if words = [] then 0
         else real (spec_connective_count (lower text)) / real (length words))"

section \<open>Test doubles for the external collaborators\<close>

definition demo_text :: string where
  "demo_text = ''I ran and she walked.''"

definition demo_sentence :: sentence where
  "demo_sentence =
     [\<lparr>tok_text = ''I'', is_alpha = True, pos = ''PRON'', dep = ''nsubj'', head = 1\<rparr>,
      \<lparr>tok_text = ''ran'', is_alpha = True, pos = ''VERB'', dep = ''ROOT'', head = 1\<rparr>,
      \<lparr>tok_text = ''and'', is_alpha = True, pos = ''CCONJ'', dep = ''cc'', head = 1\<rparr>,
      \<lparr>tok_text = ''she'', is_alpha = True, pos = ''PRON'', dep = ''nsubj'', head = 4\<rparr>,
      \<lparr>tok_text = ''walked'', is_alpha = True, pos = ''VERB'', dep = ''conj'', head = 1\<rparr>,
      \<lparr>tok_text = ''.'', is_alpha = False, pos = ''PUNCT'', dep = ''punct'', head = 1\<rparr>]"

definition demo_adapters :: adapters where
  "demo_adapters =
     \<lparr>word_tokenize =
        (\<lambda>s. if s = demo_text then [''I'', ''ran'', ''and'', ''she'', ''walked'', ''.'']
              else if s = ''it was so so good'' then [''it'', ''was'', ''so'', ''so'', ''good'']
              else if s = ''Did it work?'' then [''Did'', ''it'', ''work'', ''?'']
              else []),
      sent_tokenize = (\<lambda>s. if s = [] then [] else [s]),
      spacy_parse = (\<lambda>s. if s = demo_text then [demo_sentence] else []),
      english_stopwords = [''i'', ''and'', ''she'', ''it'', ''was'', ''so''],
      synsets =
        (\<lambda>t. if t = ''ran'' then
                [\<lparr>primary_lemma = ''run'', min_depth = 2\<rparr>,
                 \<lparr>primary_lemma = ''scat'', min_depth = 4\<rparr>]
              else []),
      language_tool_check = (\<lambda>s. Inr [])\<rparr>"

definition demo_record_for :: "nat \<Rightarrow> feature_record" where
  \<comment> \<open>the record expected for \<open>demo_text\<close> under the prefix \<open>OST_\<close>, when the grammar
      checker reports \<open>n\<close> matches\<close>
  "demo_record_for n =
     [(''OST_word_count'', PyInt 5),
      (''OST_avg_sentence_length'', PyFloat 5),
      (''OST_num_complex_sentences'', PyInt 0),
      (''OST_lexical_diversity'', PyFloat 1),
      (''OST_vocabulary_sophistication'', PyFloat (3 / 10)),
      (''OST_polysemy_word'', PyInt 1),
      (''OST_sentence_type_diversity'', PyFloat (1 / 5)),
      (''OST_syntactic_simplicity'', PyFloat (5 / 7)),
      (''OST_information_density'', PyFloat (2 / 5)),
      (''OST_error_count'', PyInt (int n)),
      (''OST_context_sensitive_count'', PyInt 1),
      (''OST_flesch_kincaid_grade_level'', PyFloat (13 / 25)),
      (''OST_text_ease'', PyFloat (37 / 70)),
      (''OST_referential_cohesion'', PyFloat 0),
      (''OST_deep_cohesion'', PyFloat 0),
      (''OST_word_length_variance'', PyFloat (64 / 25)),
      (''OST_syllable_variance'', PyFloat (4 / 25)),
      (''OST_num_t_units'', PyInt 2),
      (''OST_mean_length_t_unit'', PyFloat 3),
      (''OST_dependent_clauses_per_t_unit'', PyFloat 0)]"

definition flagging_adapters :: adapters where
  \<comment> \<open>the same collaborators with a grammar checker that reports one match\<close>
  "flagging_adapters = demo_adapters\<lparr>language_tool_check := (\<lambda>s. Inr [''UPPERCASE''])\<rparr>"

definition failing_adapters :: adapters where
  \<comment> \<open>the same collaborators with a grammar checker whose every call fails\<close>
  "failing_adapters = demo_adapters\<lparr>language_tool_check := (\<lambda>s. Inl LanguageToolError)\<rparr>"

definition five_sentences :: "string list" where
  "five_sentences =
     [''Did it work?'', ''It did!'', ''Because we tried, it worked.'',
      ''We went to the old market, and then we walked back home slowly.'', ''I ran.'']"

definition five_types_text :: string where
  "five_types_text =
     ''Did it work? It did! Because we tried, it worked. We went to the old market, and then we walked back home slowly. I ran.''"

definition diversity_adapters :: adapters where
  \<comment> \<open>collaborators that split two texts into their sentences, and a sentence with a
      comma into its tokens\<close>
  "diversity_adapters =
     demo_adapters
       \<lparr>word_tokenize :=
          (\<lambda>s. if s = ''We went to the old market, and then we walked back home slowly.'' then
                  [''We'', ''went'', ''to'', ''the'', ''old'', ''market'', '','', ''and'',
                   ''then'', ''we'', ''walked'', ''back'', ''home'', ''slowly'', ''.'']
                else if s = ''Yes, I ran.'' then [''Yes'', '','', ''I'', ''ran'', ''.'']
                else []),
        sent_tokenize :=
          (\<lambda>s. if s = five_types_text then five_sentences
                else if s = ''Did it work? I ran.'' then [''Did it work?'', ''I ran.'']
                else if s = [] then []
                else [s])\<rparr>"

definition fresh_world :: world where
  \<comment> \<open>after \<open>FeatureExtractor.__init__\<close>, which loads the parser\<close>
  "fresh_world =
     \<lparr>nlp_loaded = True, stopwords_loaded = False, language_tool_loaded = False,
      check_requests = []\<rparr>"

section \<open>Properties\<close>

subsection \<open>The syllable estimator\<close>

text \<open>
  C9. For every input string the syllable estimator returns at least 1, and it returns
  exactly 1 whenever the lower-cased, stripped word has at most three characters,
  whatever those characters are.
\<close>

theorem count_syllables_at_least_one:
  "1 \<le> count_syllables word \<and>
   (length (strip (lower word)) \<le> 3 \<longrightarrow> count_syllables word = 1)"
  by (simp add: count_syllables_def Let_def)

theorem count_syllables_at_least_one_witness:
  "1 \<le> count_syllables '' A1 '' \<and> length (strip (lower '' A1 '')) \<le> 3 \<and>
   count_syllables '' A1 '' = 1 \<and>
   1 \<le> count_syllables ''hmmm'' \<and> syllable_loop ''hmmm'' 0 False = 0 \<and>
   count_syllables ''table'' = 1 \<and> count_syllables ''Walked'' = 2"
proof -
  have short: "length (strip (lower '' A1 '')) \<le> 3"
    by code_simp
  have long: "syllable_loop ''hmmm'' 0 False = 0" "count_syllables ''table'' = 1"
    "count_syllables ''Walked'' = 2"
    by code_simp+
  from count_syllables_at_least_one [of "'' A1 ''"] count_syllables_at_least_one [of "''hmmm''"]
    short long
  show ?thesis by simp
qed

subsection \<open>The T-unit segmenter\<close>

lemma token_loop_spans:
  "token_loop sent toks cur sdc lens dcc = (cur', sdc', lens', dcc') \<Longrightarrow>
   (if cur' \<noteq> [] then lens' @ [length cur'] else lens') = lens @ map length (spans_loop sent toks cur)"
proof (induction toks arbitrary: cur sdc lens dcc)
  case Nil
  then show ?case by auto
next
  case (Cons tok toks)
  let ?sdc = "if dep tok \<in> set dependent_clause_labels then sdc + 1 else sdc"
  show ?case
  proof (cases "is_t_unit_boundary sent tok")
    case True
    with Cons.prems
    have "token_loop sent toks [] 0 (lens @ [length (cur @ [tok])]) (dcc + ?sdc) =
          (cur', sdc', lens', dcc')"
      by (simp add: Let_def)
    from Cons.IH [OF this] True show ?thesis by (simp add: Let_def)
  next
    case False
    with Cons.prems
    have "token_loop sent toks (cur @ [tok]) ?sdc lens dcc = (cur', sdc', lens', dcc')"
      by (simp add: Let_def)
    from Cons.IH [OF this] False show ?thesis by (simp add: Let_def)
  qed
qed

lemma spans_loop_concat: "concat (spans_loop sent toks cur) = cur @ toks"
  by (induction toks arbitrary: cur) (auto simp: Let_def)

lemma spans_loop_nonempty: "u \<in> set (spans_loop sent toks cur) \<Longrightarrow> u \<noteq> []"
  by (induction toks arbitrary: cur) (auto simp: Let_def split: if_splits)

lemma spans_loop_inner:
  "\<forall>t\<in>set cur. \<not> is_t_unit_boundary sent t \<Longrightarrow> u \<in> set (spans_loop sent toks cur) \<Longrightarrow>
   t \<in> set (butlast u) \<Longrightarrow> \<not> is_t_unit_boundary sent t"
proof (induction toks arbitrary: cur)
  case Nil
  then show ?case by (auto split: if_splits dest: in_set_butlastD)
next
  case (Cons tok toks)
  show ?case
  proof (cases "is_t_unit_boundary sent tok")
    case True
    with Cons.prems have "u = cur @ [tok] \<or> u \<in> set (spans_loop sent toks [])"
      by (auto simp: Let_def)
    then show ?thesis
    proof
      assume "u = cur @ [tok]"
      with Cons.prems show ?thesis by auto
    next
      assume "u \<in> set (spans_loop sent toks [])"
      with Cons.IH [of "[]"] Cons.prems(3) show ?thesis by simp
    qed
  next
    case False
    with Cons.prems have "u \<in> set (spans_loop sent toks (cur @ [tok]))"
      by (auto simp: Let_def)
    moreover from False Cons.prems(1) have "\<forall>t\<in>set (cur @ [tok]). \<not> is_t_unit_boundary sent t"
      by auto
    ultimately show ?thesis using Cons.IH [of "cur @ [tok]"] Cons.prems(3) by blast
  qed
qed

lemma spans_loop_closed:
  "u \<in> set (butlast (spans_loop sent toks cur)) \<Longrightarrow> is_t_unit_boundary sent (last u)"
  by (induction toks arbitrary: cur) (auto simp: Let_def split: if_splits)


lemma sentence_step_spans:
  "fst (sentence_step sent acc) = fst acc @ map length (t_unit_spans sent)"
proof -
  obtain cur sdc lens dcc where
    loop: "token_loop sent sent [] 0 (fst acc) (snd acc) = (cur, sdc, lens, dcc)"
    by (metis prod_cases4)
  from token_loop_spans [OF loop] loop show ?thesis
    by (simp add: sentence_step_def t_unit_spans_def split: if_splits)
qed

lemma fold_sentence_step_spans:
  "fst (fold sentence_step sents acc) =
   fst acc @ concat (map (\<lambda>s. map length (t_unit_spans s)) sents)"
  by (induction sents arbitrary: acc) (simp_all add: sentence_step_spans)

lemma extract_t_units_spans:
  "fst (fst (extract_t_units ad text w)) =
   concat (map (\<lambda>s. map length (t_unit_spans s)) (spacy_parse ad text))"
  by (simp add: extract_t_units_def get_nlp_def fold_sentence_step_spans)

lemma t_unit_spans_concat: "concat (t_unit_spans sent) = sent"
  by (simp add: t_unit_spans_def spans_loop_concat)

lemma sum_list_span_lengths: "sum_list (map length (t_unit_spans sent)) = length sent"
proof -
  have "sum_list (map length (t_unit_spans sent)) = length (concat (t_unit_spans sent))"
    by (simp add: length_concat)
  then show ?thesis by (simp add: t_unit_spans_def spans_loop_concat)
qed

lemma t_unit_spans_nonempty: "sent \<noteq> [] \<Longrightarrow> t_unit_spans sent \<noteq> []"
  using spans_loop_concat [of sent sent "[]"] by (auto simp: t_unit_spans_def)

lemma num_t_units_length:
  "fst (num_t_units ad text w) = length (fst (fst (extract_t_units ad text w)))"
  by (simp add: num_t_units_def split: prod.splits)

lemma count_nonempty_le_units:
  "length (filter (\<lambda>s. s \<noteq> []) sents) \<le>
   length (concat (map (\<lambda>s. map length (t_unit_spans s)) sents))"
proof (induction sents)
  case Nil
  then show ?case by simp
next
  case (Cons s sents)
  show ?case
  proof (cases "s = []")
    case True
    with Cons show ?thesis by simp
  next
    case False
    then have "1 \<le> length (t_unit_spans s)"
      using t_unit_spans_nonempty [of s] by (cases "t_unit_spans s") simp_all
    with Cons False show ?thesis by simp
  qed
qed

lemma sum_list_units_doc:
  "sum_list (concat (map (\<lambda>s. map length (t_unit_spans s)) sents)) = length (concat sents)"
  by (induction sents) (simp_all add: sum_list_span_lengths)

text \<open>
  C2. The T-units the segmenter closes for a sentence partition the sentence's tokens:
  the lengths it appends for the sentence are the lengths of consecutive spans whose
  concatenation is the sentence, so they sum to the sentence's token count, and over a
  document they sum to the number of its tokens.
\<close>

theorem t_units_partition_sentence:
  "fst (sentence_step sent (lens, dcc)) = lens @ map length (t_unit_spans sent) \<and>
   concat (t_unit_spans sent) = sent \<and>
   sum_list (map length (t_unit_spans sent)) = length sent \<and>
   sum_list (fst (sentence_step sent ([], 0))) = length sent \<and>
   sum_list (fst (fst (extract_t_units ad text w))) = length (concat (spacy_parse ad text))"
  by (simp add: sentence_step_spans sum_list_span_lengths t_unit_spans_concat
      extract_t_units_spans sum_list_units_doc)

text \<open>
  C10. Every T-unit the segmenter closes has at least one token; at a boundary token the
  unit closed contains that token and the next unit starts empty, so each span but the
  last of a sentence ends with its boundary token and no other token of a span is one;
  a sentence with at least one token gives at least one T-unit, and \<open>num_t_units\<close> is at
  least the number of non-empty sentences.
\<close>

theorem t_units_nonempty:
  "(\<forall>n \<in> set (fst (sentence_step sent ([], 0))). 1 \<le> n) \<and>
   (\<forall>n \<in> set (fst (fst (extract_t_units ad text w))). 1 \<le> n) \<and>
   (is_t_unit_boundary sent tok \<longrightarrow>
      token_loop sent (tok # toks) cur sdc lens dcc =
      token_loop sent toks [] 0 (lens @ [length cur + 1])
        (dcc + (if dep tok \<in> set dependent_clause_labels then sdc + 1 else sdc))) \<and>
   (\<forall>u \<in> set (butlast (t_unit_spans sent)). is_t_unit_boundary sent (last u)) \<and>
   (\<forall>u \<in> set (t_unit_spans sent). \<forall>t \<in> set (butlast u). \<not> is_t_unit_boundary sent t) \<and>
   (sent \<noteq> [] \<longrightarrow> fst (sentence_step sent ([], 0)) \<noteq> []) \<and>
   length (filter (\<lambda>s. s \<noteq> []) (spacy_parse ad text)) \<le> fst (num_t_units ad text w)"
proof -
  have pos: "1 \<le> length u" if "u \<in> set (t_unit_spans s)" for u s
    using spans_loop_nonempty [of u s s "[]"] that
    by (cases u) (simp_all add: t_unit_spans_def)
  have a: "\<forall>n \<in> set (fst (sentence_step sent ([], 0))). 1 \<le> n"
    using pos by (auto simp: sentence_step_spans)
  have b: "\<forall>n \<in> set (fst (fst (extract_t_units ad text w))). 1 \<le> n"
    using pos by (auto simp: extract_t_units_spans)
  have c: "is_t_unit_boundary sent tok \<longrightarrow>
      token_loop sent (tok # toks) cur sdc lens dcc =
      token_loop sent toks [] 0 (lens @ [length cur + 1])
        (dcc + (if dep tok \<in> set dependent_clause_labels then sdc + 1 else sdc))"
    by (simp add: Let_def)
  have d: "\<forall>u \<in> set (butlast (t_unit_spans sent)). is_t_unit_boundary sent (last u)"
    using spans_loop_closed [of _ sent sent "[]"] by (simp add: t_unit_spans_def)
  have e: "\<forall>u \<in> set (t_unit_spans sent). \<forall>t \<in> set (butlast u). \<not> is_t_unit_boundary sent t"
    using spans_loop_inner [of "[]" sent _ sent] by (auto simp: t_unit_spans_def)
  have f: "sent \<noteq> [] \<longrightarrow> fst (sentence_step sent ([], 0)) \<noteq> []"
    using t_unit_spans_nonempty [of sent] by (simp add: sentence_step_spans)
  have g: "length (filter (\<lambda>s. s \<noteq> []) (spacy_parse ad text)) \<le> fst (num_t_units ad text w)"
    using count_nonempty_le_units [of "spacy_parse ad text"]
    by (simp add: num_t_units_length extract_t_units_spans)
  from a b c d e f g show ?thesis by blast
qed


lemma demo_spans: "t_unit_spans demo_sentence = [take 3 demo_sentence, drop 3 demo_sentence]"
  by (simp add: t_unit_spans_def is_t_unit_boundary_def children_def demo_sentence_def)

theorem t_units_partition_sentence_witness:
  "fst (sentence_step demo_sentence ([], 0)) = [3, 3] \<and>
   sum_list (fst (sentence_step demo_sentence ([], 0))) = length demo_sentence \<and>
   concat (t_unit_spans demo_sentence) = demo_sentence \<and>
   sum_list (fst (fst (extract_t_units demo_adapters demo_text fresh_world))) = 6"
  using t_units_partition_sentence [of demo_sentence "[]" 0 demo_adapters demo_text fresh_world]
  by (simp add: demo_spans demo_adapters_def) (simp add: demo_sentence_def)


lemma demo_boundary_and: "is_t_unit_boundary demo_sentence (demo_sentence ! 2)"
  by (simp add: is_t_unit_boundary_def children_def demo_sentence_def)

theorem t_units_nonempty_witness:
  "fst (sentence_step demo_sentence ([], 0)) = [3, 3] \<and>
   is_t_unit_boundary demo_sentence (demo_sentence ! 2) \<and>
   token_loop demo_sentence (demo_sentence ! 2 # drop 3 demo_sentence) (take 2 demo_sentence)
     0 [] 0 =
   token_loop demo_sentence (drop 3 demo_sentence) [] 0 [3] 0 \<and>
   demo_sentence \<noteq> [] \<and> fst (sentence_step demo_sentence ([], 0)) \<noteq> [] \<and>
   length (filter (\<lambda>s. s \<noteq> []) (spacy_parse demo_adapters demo_text)) = 1 \<and>
   fst (num_t_units demo_adapters demo_text fresh_world) = 2"
proof -
  have spans: "fst (sentence_step demo_sentence ([], 0)) = [3, 3]"
    by (simp add: sentence_step_spans demo_spans) (simp add: demo_sentence_def)
  have parse: "spacy_parse demo_adapters demo_text = [demo_sentence]"
    by (simp add: demo_adapters_def)
  have units: "fst (num_t_units demo_adapters demo_text fresh_world) = 2"
    by (simp add: num_t_units_length extract_t_units_spans parse demo_spans)
  have ne: "demo_sentence \<noteq> []"
    by (simp add: demo_sentence_def)
  have dep: "dep (demo_sentence ! 2) \<notin> set dependent_clause_labels"
    by (simp add: demo_sentence_def dependent_clause_labels_def)
  have len: "length (take 2 demo_sentence) + 1 = 3"
    by (simp add: demo_sentence_def)
  from t_units_nonempty [of demo_sentence demo_adapters demo_text fresh_world
      "demo_sentence ! 2" "drop 3 demo_sentence" "take 2 demo_sentence" 0 "[]" 0]
    demo_boundary_and dep len spans units ne parse
  show ?thesis by simp
qed

subsection \<open>Accuracy, readability and sentence types\<close>

text \<open>
  C7. For a text of fewer than ten characters \<open>error_count\<close> returns 0 and leaves the
  world as it was: the grammar checker is neither loaded nor sent a request, whatever it
  would have answered. For a longer text the request is sent.
\<close>

theorem error_count_short_circuit:
  "(length text < 10 \<longrightarrow> error_count ad text w = (Inr 0, w)) \<and>
   (\<not> length text < 10 \<longrightarrow>
      check_requests (snd (error_count ad text w)) = check_requests w @ [text])"
  by (auto simp: error_count_def get_language_tool_def Let_def split: sum.splits)

theorem error_count_short_circuit_witness:
  "length ''Too short'' < 10 \<and>
   error_count failing_adapters ''Too short'' fresh_world = (Inr 0, fresh_world) \<and>
   \<not> length demo_text < 10 \<and>
   check_requests (snd (error_count failing_adapters demo_text fresh_world)) = [demo_text]"
  using error_count_short_circuit [of "''Too short''" failing_adapters fresh_world]
    error_count_short_circuit [of demo_text failing_adapters fresh_world]
  by (simp add: demo_text_def fresh_world_def)

text \<open>
  C3. \<open>text_ease\<close> is the weighted sum 0.25 grade\_ease + 0.25 syntactic\_simplicity +
  0.20 * 0.5 + 0.15 referential\_cohesion + 0.15 deep\_cohesion, where grade\_ease is
  1 - clamp((FK grade - 3) / 15, 0, 1); the sum is returned as it is, unclamped.
\<close>

theorem text_ease_weighted_sum:
  "fst (text_ease ad text w) =
     0.25 * (1 - spec_clamp ((flesch_kincaid_grade_level ad text - 3) / 15) 0 1) +
     0.25 * syntactic_simplicity ad text +
     0.20 * 0.5 +
     0.15 * fst (referential_cohesion ad text w) +
     0.15 * deep_cohesion ad text"
  by (simp add: text_ease_def spec_clamp_def Let_def min_def max_def split: prod.splits)

lemma demo_words: "filter isalpha (word_tokenize demo_adapters demo_text) = [''I'', ''ran'', ''and'', ''she'', ''walked'']"
  by (simp add: demo_adapters_def isalpha_def is_upper_char_def is_lower_char_def)

lemma demo_syll:
  "count_syllables ''I'' = 1" "count_syllables ''ran'' = 1" "count_syllables ''and'' = 1"
  "count_syllables ''she'' = 1" "count_syllables ''walked'' = 2"
  by code_simp+

lemma demo_conn: "connective_count (lower demo_text) = 0"
  by code_simp

lemma demo_sentences: "sent_tokenize demo_adapters demo_text = [demo_text]"
  by (simp add: demo_adapters_def demo_text_def)

lemma demo_tokens: "word_tokenize demo_adapters demo_text = [''I'', ''ran'', ''and'', ''she'', ''walked'', ''.'']"
  by (simp add: demo_adapters_def)

lemma demo_fk: "flesch_kincaid_grade_level demo_adapters demo_text = 0.52"
  by (simp add: flesch_kincaid_grade_level_def demo_sentences demo_words demo_syll Let_def)

lemma demo_simp: "syntactic_simplicity demo_adapters demo_text = 5 / 7"
  by (simp add: syntactic_simplicity_def demo_sentences demo_tokens Let_def)

lemma demo_ref: "referential_cohesion demo_adapters demo_text w = (0, w)"
  by (simp add: referential_cohesion_def demo_sentences Let_def)

lemma demo_deep: "deep_cohesion demo_adapters demo_text = 0"
  by (simp add: deep_cohesion_def demo_words demo_conn Let_def)

theorem text_ease_weighted_sum_witness:
  "fst (text_ease demo_adapters demo_text fresh_world) =
     0.25 * (1 - spec_clamp ((0.52 - 3) / 15) 0 1) + 0.25 * (5 / 7) + 0.20 * 0.5 +
     0.15 * 0 + 0.15 * 0 \<and>
   fst (text_ease demo_adapters demo_text fresh_world) = 37 / 70"
  using text_ease_weighted_sum [of demo_adapters demo_text fresh_world]
  by (simp add: demo_fk demo_simp demo_ref demo_deep spec_clamp_def)

lemma fold_insert_image: "fold (\<lambda>x A. insert (f x) A) xs A = f ` set xs \<union> A"
  by (induction xs arbitrary: A) auto

lemma sentence_type_label:
  "sentence_type ad sent \<in> {''question'', ''exclamation'', ''complex'', ''compound'', ''simple''}"
  by (simp add: sentence_type_def Let_def)

lemma card_types_le_5: "card (sentence_type ad ` set sentences) \<le> 5"
proof -
  have "sentence_type ad ` set sentences \<subseteq>
        {''question'', ''exclamation'', ''complex'', ''compound'', ''simple''}"
    using sentence_type_label by blast
  then have "card (sentence_type ad ` set sentences) \<le>
        card {''question'', ''exclamation'', ''complex'', ''compound'', ''simple''}"
    by (intro card_mono) simp_all
  also have "\<dots> = 5" by simp
  finally show ?thesis .
qed

lemma sentence_type_diversity_eq:
  "sentence_type_diversity ad text =
     (if sent_tokenize ad text = [] then 0
      else real (card (sentence_type ad ` set (sent_tokenize ad text))) / 5)"
  by (simp add: sentence_type_diversity_def Let_def fold_insert_image)

text \<open>
  C4. Every sentence gets exactly one of the five types, the first that applies: it is a
  question when it ends with a question mark; else an exclamation when it ends with an
  exclamation mark; else complex when it starts with one of if, when, although, because,
  while, since, after, before; else compound when it contains a comma and has more than
  ten tokens; else simple. \<open>sentence_type_diversity\<close> is k / 5 for the number k of
  distinct types among the sentences, so it lies in [0, 1]; it is 0 when there is no
  sentence and 1 / 5 for a single question.
\<close>

theorem sentence_type_diversity_k_over_5:
  "sentence_type_diversity ad text =
     (if sent_tokenize ad text = [] then 0
      else real (card (sentence_type ad ` set (sent_tokenize ad text))) / 5) \<and>
   0 \<le> sentence_type_diversity ad text \<and> sentence_type_diversity ad text \<le> 1 \<and>
   sentence_type ad sent \<in> {''question'', ''exclamation'', ''complex'', ''compound'', ''simple''} \<and>
   sentence_type ad sent =
     (if suffix ''?'' (strip sent) then ''question''
      else if suffix ''!'' (strip sent) then ''exclamation''
      else if \<exists>m \<in> {''if'', ''when'', ''although'', ''because'', ''while'', ''since'', ''after'',
                      ''before''}. prefix m (lower (strip sent))
        then ''complex''
      else if CHR '','' \<in> set sent \<and> 10 < length (word_tokenize ad sent) then ''compound''
      else ''simple'') \<and>
   (sent_tokenize ad text = [] \<longrightarrow> sentence_type_diversity ad text = 0) \<and>
   (sent_tokenize ad text = [sent] \<and> suffix ''?'' (strip sent) \<longrightarrow>
      sentence_type_diversity ad text = 1 / 5)"
proof -
  have bound: "sentence_type_diversity ad text \<le> 1"
    using card_types_le_5 [of ad "sent_tokenize ad text"]
    by (simp add: sentence_type_diversity_eq)
  have single: "sent_tokenize ad text = [sent] \<and> suffix ''?'' (strip sent) \<longrightarrow>
      sentence_type_diversity ad text = 1 / 5"
    by (simp add: sentence_type_diversity_eq sentence_type_def endswith_def)
  have cls: "sentence_type ad sent =
     (if suffix ''?'' (strip sent) then ''question''
      else if suffix ''!'' (strip sent) then ''exclamation''
      else if \<exists>m \<in> {''if'', ''when'', ''although'', ''because'', ''while'', ''since'', ''after'',
                      ''before''}. prefix m (lower (strip sent))
        then ''complex''
      else if CHR '','' \<in> set sent \<and> 10 < length (word_tokenize ad sent) then ''compound''
      else ''simple'')"
    by (simp add: sentence_type_def Let_def list_ex_iff complex_starters_def endswith_def
        startswith_def)
  from bound single sentence_type_label [of ad sent] show ?thesis
    by (simp add: sentence_type_diversity_eq flip: cls)
qed

lemma five_sentences_facts:
  "suffix ''?'' (strip ''Did it work?'')"
  "\<not> suffix ''?'' (strip ''It did!'')" "suffix ''!'' (strip ''It did!'')"
  "\<not> suffix ''?'' (strip ''Because we tried, it worked.'')"
  "\<not> suffix ''!'' (strip ''Because we tried, it worked.'')"
  "prefix ''because'' (lower (strip ''Because we tried, it worked.''))"
  "\<not> suffix ''?'' (strip ''We went to the old market, and then we walked back home slowly.'')"
  "\<not> suffix ''!'' (strip ''We went to the old market, and then we walked back home slowly.'')"
  "\<forall>m \<in> {''if'', ''when'', ''although'', ''because'', ''while'', ''since'', ''after'', ''before''}.
     \<not> prefix m (lower (strip ''We went to the old market, and then we walked back home slowly.''))"
  "CHR '','' \<in> set ''We went to the old market, and then we walked back home slowly.''"
  "\<not> suffix ''?'' (strip ''I ran.'')" "\<not> suffix ''!'' (strip ''I ran.'')"
  "\<forall>m \<in> {''if'', ''when'', ''although'', ''because'', ''while'', ''since'', ''after'', ''before''}.
     \<not> prefix m (lower (strip ''I ran.''))"
  "CHR '','' \<notin> set ''I ran.''"
  "\<not> suffix ''?'' (strip ''Yes, I ran.'')" "\<not> suffix ''!'' (strip ''Yes, I ran.'')"
  "\<forall>m \<in> {''if'', ''when'', ''although'', ''because'', ''while'', ''since'', ''after'', ''before''}.
     \<not> prefix m (lower (strip ''Yes, I ran.''))"
  "suffix ''?'' (strip ''If so, why?'')" "prefix ''if'' (lower (strip ''If so, why?''))"
  by code_simp+

lemma diversity_tokens:
  "length (word_tokenize diversity_adapters
     ''We went to the old market, and then we walked back home slowly.'') = 15"
  "length (word_tokenize diversity_adapters ''Yes, I ran.'') = 5"
  by (simp_all add: diversity_adapters_def)

lemma diversity_sentences:
  "sent_tokenize diversity_adapters five_types_text = five_sentences"
  "sent_tokenize diversity_adapters ''Did it work? I ran.'' = [''Did it work?'', ''I ran.'']"
  "sent_tokenize diversity_adapters ''Did it work?'' = [''Did it work?'']"
  "sent_tokenize diversity_adapters [] = []"
  by (simp_all add: diversity_adapters_def five_types_text_def)

theorem sentence_type_diversity_k_over_5_witness:
  "sentence_type diversity_adapters ''Did it work?'' = ''question'' \<and>
   sentence_type diversity_adapters ''It did!'' = ''exclamation'' \<and>
   sentence_type diversity_adapters ''Because we tried, it worked.'' = ''complex'' \<and>
   sentence_type diversity_adapters
     ''We went to the old market, and then we walked back home slowly.'' = ''compound'' \<and>
   sentence_type diversity_adapters ''I ran.'' = ''simple'' \<and>
   sentence_type diversity_adapters ''Yes, I ran.'' = ''simple'' \<and>
   sentence_type diversity_adapters ''If so, why?'' = ''question'' \<and>
   sentence_type_diversity diversity_adapters five_types_text = 1 \<and>
   sentence_type_diversity diversity_adapters ''Did it work? I ran.'' = 2 / 5 \<and>
   sentence_type_diversity diversity_adapters ''Did it work?'' = 1 / 5 \<and>
   sentence_type_diversity diversity_adapters [] = 0"
proof -
  note facts = five_sentences_facts diversity_tokens diversity_sentences
  have q: "sentence_type diversity_adapters ''Did it work?'' = ''question''"
    using sentence_type_diversity_k_over_5 [of diversity_adapters "[]" "''Did it work?''"] facts
    by simp
  have e: "sentence_type diversity_adapters ''It did!'' = ''exclamation''"
    using sentence_type_diversity_k_over_5 [of diversity_adapters "[]" "''It did!''"] facts
    by simp
  have c: "sentence_type diversity_adapters ''Because we tried, it worked.'' = ''complex''"
    using sentence_type_diversity_k_over_5 [of diversity_adapters "[]"
        "''Because we tried, it worked.''"] facts
    by simp
  have d: "sentence_type diversity_adapters
      ''We went to the old market, and then we walked back home slowly.'' = ''compound''"
    using sentence_type_diversity_k_over_5 [of diversity_adapters "[]"
        "''We went to the old market, and then we walked back home slowly.''"] facts
    by simp
  have s: "sentence_type diversity_adapters ''I ran.'' = ''simple''"
    using sentence_type_diversity_k_over_5 [of diversity_adapters "[]" "''I ran.''"] facts
    by simp
  have s2: "sentence_type diversity_adapters ''Yes, I ran.'' = ''simple''"
    using sentence_type_diversity_k_over_5 [of diversity_adapters "[]" "''Yes, I ran.''"] facts
    by simp
  have q2: "sentence_type diversity_adapters ''If so, why?'' = ''question''"
    using sentence_type_diversity_k_over_5 [of diversity_adapters "[]" "''If so, why?''"] facts
    by simp
  have five: "sentence_type_diversity diversity_adapters five_types_text = 1"
    using sentence_type_diversity_k_over_5 [of diversity_adapters five_types_text "[]"]
    by (simp add: diversity_sentences five_sentences_def q e c d s)
  have two: "sentence_type_diversity diversity_adapters ''Did it work? I ran.'' = 2 / 5"
    using sentence_type_diversity_k_over_5 [of diversity_adapters "''Did it work? I ran.''" "[]"]
    by (simp add: diversity_sentences q s)
  have one: "sentence_type_diversity diversity_adapters ''Did it work?'' = 1 / 5"
    using sentence_type_diversity_k_over_5 [of diversity_adapters "''Did it work?''"
        "''Did it work?''"] facts
    by simp
  have none: "sentence_type_diversity diversity_adapters [] = 0"
    using sentence_type_diversity_k_over_5 [of diversity_adapters "[]" "[]"] facts
    by simp
  from q e c d s s2 q2 five two one none show ?thesis by blast
qed

subsection \<open>Deep cohesion\<close>

lemma spec_occurrences_tl: "spec_occurrences (tl s) sub \<le> spec_occurrences s sub"
  by (cases s) simp_all

lemma spec_occurrences_drop: "spec_occurrences (drop n s) sub \<le> spec_occurrences s sub"
proof (induction n arbitrary: s)
  case 0
  then show ?case by simp
next
  case (Suc n)
  show ?case
  proof (cases s)
    case Nil
    then show ?thesis by simp
  next
    case (Cons c cs)
    have "spec_occurrences (drop n cs) sub \<le> spec_occurrences cs sub"
      by (rule Suc.IH)
    with Cons show ?thesis by simp
  qed
qed

lemma str_count_le_occurrences: "sub \<noteq> [] \<Longrightarrow> str_count s sub \<le> spec_occurrences s sub"
proof (induction s sub rule: str_count.induct)
  case (1 s sub)
  show ?case
  proof (cases s)
    case Nil
    with "1.prems" show ?thesis by (simp add: str_count.simps)
  next
    case (Cons c cs)
    show ?thesis
    proof (cases "prefix sub s")
      case True
      with "1.prems" Cons have eq: "str_count s sub = 1 + str_count (drop (length sub) s) sub"
        by (subst str_count.simps) simp
      from "1.prems" obtain k where k: "length sub = Suc k"
        by (cases sub) auto
      have "str_count (drop (length sub) s) sub \<le> spec_occurrences (drop (length sub) s) sub"
        using "1.IH"(1) "1.prems" Cons True by simp
      also have "\<dots> = spec_occurrences (drop k cs) sub"
        using Cons k by simp
      also have "\<dots> \<le> spec_occurrences cs sub"
        by (rule spec_occurrences_drop)
      finally show ?thesis using eq Cons True by simp
    next
      case False
      with "1.prems" Cons have eq: "str_count s sub = str_count (tl s) sub"
        by (subst str_count.simps) simp
      have "str_count (tl s) sub \<le> spec_occurrences (tl s) sub"
        using "1.IH"(2) "1.prems" Cons False by simp
      with eq Cons False show ?thesis by simp
    qed
  qed
qed

lemma connective_count_le_occurrences: "connective_count s \<le> spec_connective_count s"
  unfolding connective_count_def spec_connective_count_def
  by (rule sum_list_mono, rule str_count_le_occurrences) simp

lemma so_conn: "connective_count (lower ''it was so so good'') = 1"
  by code_simp

lemma so_occ: "spec_connective_count (lower ''it was so so good'') = 2"
  by code_simp

lemma so_words: "filter isalpha (word_tokenize demo_adapters ''it was so so good'') = [''it'', ''was'', ''so'', ''so'', ''good'']"
  by (simp add: demo_adapters_def demo_text_def isalpha_def is_upper_char_def is_lower_char_def)

text \<open>
  C5. The claim asks for every occurrence of a connective as a whole word between blanks
  to be counted. In \<open>it was so so good\<close> the word \<open>so\<close> stands twice between blanks, and
  the code counts it once, since \<open>str.count\<close> takes the two occurrences, which share a
  blank, for one; two different connectives that share a blank are both counted, and of
  three equal ones two.
\<close>

theorem deep_cohesion_repeated_connective:
  "deep_cohesion demo_adapters ''it was so so good'' = 1 / 5 \<and>
   spec_deep_cohesion demo_adapters ''it was so so good'' = 2 / 5 \<and>
   deep_cohesion demo_adapters ''it was so so good'' \<noteq>
   spec_deep_cohesion demo_adapters ''it was so so good'' \<and>
   connective_count '' so so '' = 1 \<and> spec_connective_count '' so so '' = 2 \<and>
   connective_count '' so but '' = 2 \<and> spec_connective_count '' so but '' = 2 \<and>
   connective_count '' then then then '' = 2 \<and> spec_connective_count '' then then then '' = 3"
proof -
  have "connective_count '' so so '' = 1" "spec_connective_count '' so so '' = 2"
    "connective_count '' so but '' = 2" "spec_connective_count '' so but '' = 2"
    "connective_count '' then then then '' = 2" "spec_connective_count '' then then then '' = 3"
    by code_simp+
  then show ?thesis
    by (simp add: deep_cohesion_def spec_deep_cohesion_def Let_def so_words so_conn so_occ)
qed

subsection \<open>Module state and the feature extractor\<close>

lemma get_stopwords_eq:
  "get_stopwords ad w = (set (english_stopwords ad), w\<lparr>stopwords_loaded := True\<rparr>)"
  by (cases w) (simp add: get_stopwords_def)

lemma get_nlp_eq: "get_nlp ad w = (spacy_parse ad, w\<lparr>nlp_loaded := True\<rparr>)"
  by (cases w) (simp add: get_nlp_def)

lemma get_language_tool_eq:
  "get_language_tool ad w = (language_tool_check ad, w\<lparr>language_tool_loaded := True\<rparr>)"
  by (cases w) (simp add: get_language_tool_def)

lemma vocabulary_sophistication_run:
  "vocabulary_sophistication ad text w =
     (value_of (vocabulary_sophistication ad text), w\<lparr>stopwords_loaded := True\<rparr>)"
  by (simp add: vocabulary_sophistication_def value_of_def get_stopwords_eq)

lemma polysemy_word_run:
  "polysemy_word ad text w = (value_of (polysemy_word ad text), w\<lparr>stopwords_loaded := True\<rparr>)"
  by (simp add: polysemy_word_def value_of_def get_stopwords_eq)

lemma information_density_run:
  "information_density ad text w =
     (value_of (information_density ad text), w\<lparr>stopwords_loaded := True\<rparr>)"
  by (simp add: information_density_def value_of_def get_stopwords_eq)

lemma error_count_run:
  "error_count ad text w =
     (value_of (error_count ad text),
      if length text < 10 then w
      else w\<lparr>language_tool_loaded := True, check_requests := check_requests w @ [text]\<rparr>)"
  by (auto simp: error_count_def value_of_def get_language_tool_eq Let_def split: sum.splits)

lemma context_sensitive_count_run:
  "context_sensitive_count ad text w =
     (value_of (context_sensitive_count ad text), w\<lparr>nlp_loaded := True\<rparr>)"
  by (simp add: context_sensitive_count_def value_of_def get_nlp_eq)

lemma referential_cohesion_run:
  "referential_cohesion ad text w =
     (value_of (referential_cohesion ad text),
      if length (sent_tokenize ad text) \<le> 1 then w else w\<lparr>stopwords_loaded := True\<rparr>)"
  by (simp add: referential_cohesion_def value_of_def get_stopwords_eq Let_def)

lemma text_ease_run:
  "text_ease ad text w =
     (value_of (text_ease ad text),
      if length (sent_tokenize ad text) \<le> 1 then w else w\<lparr>stopwords_loaded := True\<rparr>)"
  by (simp only: value_of_def [of "text_ease ad text"])
     (simp add: text_ease_def referential_cohesion_run Let_def)

lemma extract_t_units_run:
  "extract_t_units ad text w = (value_of (extract_t_units ad text), w\<lparr>nlp_loaded := True\<rparr>)"
  by (simp add: extract_t_units_def value_of_def get_nlp_eq)

lemma num_t_units_run:
  "num_t_units ad text w = (value_of (num_t_units ad text), w\<lparr>nlp_loaded := True\<rparr>)"
  by (simp only: value_of_def [of "num_t_units ad text"])
     (simp add: num_t_units_def extract_t_units_run split: prod.splits)

lemma mean_length_t_unit_run:
  "mean_length_t_unit ad text w =
     (value_of (mean_length_t_unit ad text), w\<lparr>nlp_loaded := True\<rparr>)"
  by (simp only: value_of_def [of "mean_length_t_unit ad text"])
     (simp add: mean_length_t_unit_def extract_t_units_run split: prod.splits)

lemma dependent_clauses_per_t_unit_run:
  "dependent_clauses_per_t_unit ad text w =
     (value_of (dependent_clauses_per_t_unit ad text), w\<lparr>nlp_loaded := True\<rparr>)"
  by (simp only: value_of_def [of "dependent_clauses_per_t_unit ad text"])
     (simp add: dependent_clauses_per_t_unit_def extract_t_units_run split: prod.splits)

lemmas feature_runs =
  vocabulary_sophistication_run polysemy_word_run information_density_run error_count_run
  context_sensitive_count_run referential_cohesion_run text_ease_run num_t_units_run
  mean_length_t_unit_run dependent_clauses_per_t_unit_run

lemma error_count_value:
  "value_of (error_count ad text) =
     (if length text < 10 then Inr 0
      else case language_tool_check ad text of Inl e \<Rightarrow> Inl e | Inr ms \<Rightarrow> Inr (length ms))"
  by (auto simp: value_of_def error_count_def get_language_tool_eq Let_def split: sum.splits)

lemma compute_features_world:
  "snd (compute_features ad text w) =
     (case value_of (error_count ad text) of
        Inl e \<Rightarrow>
          w\<lparr>stopwords_loaded := True, language_tool_loaded := True,
            check_requests := check_requests w @ [text]\<rparr>
      | Inr n \<Rightarrow>
          if length text < 10 then w\<lparr>stopwords_loaded := True, nlp_loaded := True\<rparr>
          else w\<lparr>stopwords_loaded := True, nlp_loaded := True, language_tool_loaded := True,
                 check_requests := check_requests w @ [text]\<rparr>)"
  by (auto simp: compute_features_def feature_runs error_count_value Let_def
      split: sum.splits)

lemma compute_features_value:
  "fst (compute_features ad text w) = value_of (compute_features ad text)"
  by (simp only: value_of_def [of "compute_features ad text"])
     (simp add: compute_features_def feature_runs Let_def split: sum.splits)


lemma dict_setitem_fresh: "k \<notin> fst ` set d \<Longrightarrow> dict_setitem d k v = d @ [(k, v)]"
  by (induction d k v rule: dict_setitem.induct) auto

lemma fold_dict_setitem_distinct:
  "distinct (map fst (acc @ items)) \<Longrightarrow>
   fold (\<lambda>(k, v) d. dict_setitem d k v) items acc = acc @ items"
proof (induction items arbitrary: acc)
  case Nil
  then show ?case by simp
next
  case (Cons kv items)
  obtain k v where kv: "kv = (k, v)" by (cases kv)
  from Cons.prems kv have fresh: "k \<notin> fst ` set acc" by auto
  from Cons.prems kv have "distinct (map fst ((acc @ [(k, v)]) @ items))" by auto
  from Cons.IH [OF this] fresh kv show ?case by (simp add: dict_setitem_fresh)
qed

lemma dict_of_items_distinct: "distinct (map fst items) \<Longrightarrow> dict_of_items items = items"
  using fold_dict_setitem_distinct [of "[]" items] by (simp add: dict_of_items_def)

lemma distinct_FEATURE_NAMES: "distinct FEATURE_NAMES"
  by (simp add: FEATURE_NAMES_def)

lemma length_FEATURE_NAMES: "length FEATURE_NAMES = 20"
  by (simp add: FEATURE_NAMES_def)

lemma distinct_prefixed: "distinct (map ((@) pfx) FEATURE_NAMES)"
  by (simp add: distinct_map distinct_FEATURE_NAMES inj_on_def)

lemma zero_record:
  "dict_of_items (map (\<lambda>name. (pfx @ name, PyInt 0)) FEATURE_NAMES) =
   map (\<lambda>name. (pfx @ name, PyInt 0)) FEATURE_NAMES"
  by (rule dict_of_items_distinct) (simp add: comp_def distinct_prefixed)

lemma prefixed_record:
  "map fst features = FEATURE_NAMES \<Longrightarrow>
   dict_of_items (map (\<lambda>(k, v). (pfx @ k, v)) features) = map (\<lambda>(k, v). (pfx @ k, v)) features"
proof (rule dict_of_items_distinct)
  assume keys: "map fst features = FEATURE_NAMES"
  have "map fst (map (\<lambda>(k, v). (pfx @ k, v)) features) = map ((@) pfx) (map fst features)"
    by (induction features) auto
  with keys show "distinct (map fst (map (\<lambda>(k, v). (pfx @ k, v)) features))"
    by (simp add: distinct_prefixed)
qed

lemma compute_features_keys:
  "fst (compute_features ad text w) = Inr features \<Longrightarrow> map fst features = FEATURE_NAMES"
  by (auto simp: compute_features_def feature_runs Let_def dict_of_items_distinct
      FEATURE_NAMES_def split: sum.splits)

lemma compute_features_returns:
  "value_of (error_count ad text) = Inr n \<Longrightarrow>
   \<exists>features. fst (compute_features ad text w) = Inr features"
  by (simp add: compute_features_def feature_runs Let_def)

lemma compute_features_raises:
  "value_of (error_count ad text) = Inl e \<Longrightarrow> fst (compute_features ad text w) = Inl e"
  by (simp add: compute_features_def feature_runs Let_def)

lemma extract_features_truth_raises:
  "truthy x = Inl e \<Longrightarrow> extract_features ad pfx x w = (Inl e, w)"
  by (simp add: extract_features_def)

lemma extract_features_degenerate:
  "truthy x = Inr t \<Longrightarrow> \<not> t \<or> \<not> isinstance_str x \<Longrightarrow>
   extract_features ad pfx x w = (Inr (map (\<lambda>name. (pfx @ name, PyInt 0)) FEATURE_NAMES), w)"
  by (simp add: extract_features_def zero_record)

lemma input_cases:
  obtains (raises) e where "truthy x = Inl e"
  | (degenerate) t where "truthy x = Inr t" and "\<not> t \<or> \<not> isinstance_str x"
  | (nonempty) s where "x = PyStr s" and "s \<noteq> []"
proof (cases x)
  case (PyOther r)
  then show ?thesis by (cases r) (auto intro: raises degenerate)
next
  case (PyStr s)
  then show ?thesis by (cases "s = []") (auto intro: degenerate nonempty)
qed (auto intro: degenerate)

lemma extract_features_text:
  "text \<noteq> [] \<Longrightarrow>
   extract_features ad pfx (PyStr text) w =
     (case fst (compute_features ad text w) of
        Inl e \<Rightarrow> Inl e
      | Inr features \<Rightarrow> Inr (map (\<lambda>(k, v). (pfx @ k, v)) features),
      snd (compute_features ad text w))"
proof -
  assume ne: "text \<noteq> []"
  obtain r w' where run: "compute_features ad text w = (r, w')"
    by (cases "compute_features ad text w")
  show ?thesis
  proof (cases r)
    case (Inl e)
    with run ne show ?thesis by (simp add: extract_features_def)
  next
    case (Inr features)
    with run have "fst (compute_features ad text w) = Inr features" by simp
    then have keys: "map fst features = FEATURE_NAMES"
      by (rule compute_features_keys)
    have "map (\<lambda>(k, v). ([] @ k, v)) features = features"
      by (simp add: case_prod_unfold)
    with prefixed_record [OF keys, of pfx] Inr run ne show ?thesis
      by (cases "pfx = []") (simp_all add: extract_features_def)
  qed
qed

text \<open>
  C1, as amended. For every input whose truth test does not raise, and whenever the
  grammar checker answers the one request a text of ten characters or more causes, the
  record \<open>extract\<close> returns has exactly the twenty canonical keys, each under the
  configured prefix and in the canonical order, none missing and none extra; for
  \<open>None\<close>, the empty string and every such non-string value each key maps to the
  integer 0.
\<close>

theorem extract_features_keys:
  "truthy x = Inr t \<Longrightarrow>
   (\<forall>text. x = PyStr text \<and> 10 \<le> length text \<longrightarrow>
      (\<exists>matches. language_tool_check ad text = Inr matches)) \<Longrightarrow>
   \<exists>features.
     fst (extract_features ad pfx x w) = Inr features \<and>
     map fst features = map ((@) pfx) FEATURE_NAMES \<and>
     distinct (map fst features) \<and> length features = 20 \<and>
     (x = PyNone \<or> x = PyStr [] \<or> \<not> isinstance_str x \<longrightarrow>
        features = map (\<lambda>name. (pfx @ name, PyInt 0)) FEATURE_NAMES)"
proof (cases x rule: input_cases)
  case (raises e)
  assume "truthy x = Inr t"
  with raises show ?thesis by simp
next
  case (degenerate t')
  then show ?thesis
    by (simp add: extract_features_degenerate comp_def distinct_prefixed length_FEATURE_NAMES)
next
  case (nonempty s)
  note x = nonempty(1) and ne = nonempty(2)
  assume "\<forall>text. x = PyStr text \<and> 10 \<le> length text \<longrightarrow>
      (\<exists>matches. language_tool_check ad text = Inr matches)"
  with x have "\<exists>n. value_of (error_count ad s) = Inr n"
    by (auto simp: error_count_value)
  then obtain features where f: "fst (compute_features ad s w) = Inr features"
    using compute_features_returns by blast
  then have keys: "map fst features = FEATURE_NAMES"
    by (rule compute_features_keys)
  have "map fst (map (\<lambda>(k, v). (pfx @ k, v)) features) = map ((@) pfx) (map fst features)"
    by (induction features) auto
  with keys
  have pk: "map fst (map (\<lambda>(k, v). (pfx @ k, v)) features) = map ((@) pfx) FEATURE_NAMES"
    by simp
  have len: "length features = 20"
    using keys length_FEATURE_NAMES by (metis length_map)
  from x ne f pk len show ?thesis
    by (simp add: extract_features_text distinct_prefixed del: map_map)
qed

lemma extract_features_value:
  "fst (extract_features ad pfx x w) = value_of (extract_features ad pfx x)"
proof (cases x rule: input_cases)
  case (raises e)
  then show ?thesis
    by (simp only: value_of_def [of "extract_features ad pfx x"])
       (simp add: extract_features_truth_raises)
next
  case (degenerate t)
  then show ?thesis
    by (simp only: value_of_def [of "extract_features ad pfx x"])
       (simp add: extract_features_degenerate)
next
  case (nonempty s)
  have "fst (extract_features ad pfx (PyStr s) w) = value_of (extract_features ad pfx (PyStr s))"
    using nonempty(2)
    by (simp only: value_of_def [of "extract_features ad pfx (PyStr s)"])
       (simp add: extract_features_text compute_features_value)
  with nonempty(1) show ?thesis by simp
qed

lemma extract_features_world:
  "snd (extract_features ad pfx x w) =
     (case x of
        PyStr s \<Rightarrow> if s = [] then w else snd (compute_features ad s w)
      | _ \<Rightarrow> w)"
proof (cases x rule: input_cases)
  case (raises e)
  then show ?thesis
    by (cases x) (auto simp: extract_features_truth_raises)
next
  case (degenerate t)
  then show ?thesis
    by (cases x) (auto simp: extract_features_degenerate)
next
  case (nonempty s)
  then show ?thesis
    by (simp add: extract_features_text)
qed

lemma compute_features_globals_twice:
  "globals_of (snd (compute_features ad s (snd (compute_features ad s w)))) =
   globals_of (snd (compute_features ad s w))"
  by (simp add: compute_features_world globals_of_def split: sum.splits)

text \<open>
  C8. The record \<open>extract\<close> returns does not depend on the state of the module globals,
  so a second call on the same text, with collaborators that answer as before, returns
  the same record as the first; and the second call leaves the module globals as the
  first call left them.
\<close>

theorem extract_features_idempotent:
  "fst (extract_features ad pfx x w) = fst (extract_features ad pfx x w') \<and>
   fst (extract_features ad pfx x (snd (extract_features ad pfx x w))) =
     fst (extract_features ad pfx x w) \<and>
   globals_of (snd (extract_features ad pfx x (snd (extract_features ad pfx x w)))) =
     globals_of (snd (extract_features ad pfx x w))"
proof -
  have "globals_of (snd (extract_features ad pfx x (snd (extract_features ad pfx x w)))) =
     globals_of (snd (extract_features ad pfx x w))"
    by (cases x) (simp_all add: extract_features_world compute_features_globals_twice)
  then show ?thesis
    by (simp add: extract_features_value)
qed

lemma demo_text_length: "length demo_text = 21"
  by (simp add: demo_text_def)

lemma demo_world:
  "snd (extract_features demo_adapters ''OST_'' (PyStr demo_text) fresh_world) =
     \<lparr>nlp_loaded = True, stopwords_loaded = True, language_tool_loaded = True,
      check_requests = [demo_text]\<rparr>"
  by (simp add: extract_features_world compute_features_world error_count_value
      demo_text_length demo_adapters_def fresh_world_def)
     (simp add: demo_text_def)

lemma sentence_content_set_checker:
  "sentence_content_set (ad\<lparr>language_tool_check := chk\<rparr>) = sentence_content_set ad"
  by (simp add: sentence_content_set_def content_tokens_def fun_eq_iff)

lemma overlaps_loop_checker:
  "overlaps_loop (ad\<lparr>language_tool_check := chk\<rparr>) sw sentences acc =
   overlaps_loop ad sw sentences acc"
proof (induction sentences arbitrary: acc)
  case Nil
  then show ?case by simp
next
  case (Cons s1 sentences)
  show ?case
  proof (cases sentences)
    case Nil
    then show ?thesis by simp
  next
    case (Cons s2 rest)
    with Cons.IH show ?thesis
      by (simp add: sentence_content_set_checker Let_def)
  qed
qed

lemma pure_features_checker:
  "word_count (ad\<lparr>language_tool_check := chk\<rparr>) = word_count ad"
  "avg_sentence_length (ad\<lparr>language_tool_check := chk\<rparr>) = avg_sentence_length ad"
  "num_complex_sentences (ad\<lparr>language_tool_check := chk\<rparr>) = num_complex_sentences ad"
  "lexical_diversity (ad\<lparr>language_tool_check := chk\<rparr>) = lexical_diversity ad"
  "sentence_type_diversity (ad\<lparr>language_tool_check := chk\<rparr>) = sentence_type_diversity ad"
  "syntactic_simplicity (ad\<lparr>language_tool_check := chk\<rparr>) = syntactic_simplicity ad"
  "flesch_kincaid_grade_level (ad\<lparr>language_tool_check := chk\<rparr>) =
     flesch_kincaid_grade_level ad"
  "deep_cohesion (ad\<lparr>language_tool_check := chk\<rparr>) = deep_cohesion ad"
  "word_length_variance (ad\<lparr>language_tool_check := chk\<rparr>) = word_length_variance ad"
  "syllable_variance (ad\<lparr>language_tool_check := chk\<rparr>) = syllable_variance ad"
  by (rule ext; simp add: word_count_def avg_sentence_length_def num_complex_sentences_def
        lexical_diversity_def sentence_type_diversity_def sentence_type_def
        syntactic_simplicity_def flesch_kincaid_grade_level_def deep_cohesion_def
        word_length_variance_def syllable_variance_def fun_eq_iff Let_def cong: if_cong)+

lemma stateful_features_checker:
  "vocabulary_sophistication (ad\<lparr>language_tool_check := chk\<rparr>) = vocabulary_sophistication ad"
  "polysemy_word (ad\<lparr>language_tool_check := chk\<rparr>) = polysemy_word ad"
  "information_density (ad\<lparr>language_tool_check := chk\<rparr>) = information_density ad"
  "context_sensitive_count (ad\<lparr>language_tool_check := chk\<rparr>) = context_sensitive_count ad"
  "referential_cohesion (ad\<lparr>language_tool_check := chk\<rparr>) = referential_cohesion ad"
  "num_t_units (ad\<lparr>language_tool_check := chk\<rparr>) = num_t_units ad"
  "mean_length_t_unit (ad\<lparr>language_tool_check := chk\<rparr>) = mean_length_t_unit ad"
  "dependent_clauses_per_t_unit (ad\<lparr>language_tool_check := chk\<rparr>) =
     dependent_clauses_per_t_unit ad"
  by (rule ext; simp add: vocabulary_sophistication_def polysemy_word_def
        information_density_def context_sensitive_count_def referential_cohesion_def
        num_t_units_def mean_length_t_unit_def dependent_clauses_per_t_unit_def
        extract_t_units_def content_tokens_def get_stopwords_eq get_nlp_eq
        overlaps_loop_checker fun_eq_iff Let_def cong: if_cong)+

lemma text_ease_checker: "text_ease (ad\<lparr>language_tool_check := chk\<rparr>) = text_ease ad"
  by (simp add: text_ease_def pure_features_checker stateful_features_checker fun_eq_iff Let_def)

lemmas features_checker = pure_features_checker stateful_features_checker text_ease_checker

lemma compute_features_checker:
  "fst (compute_features ad text w) = Inr features \<Longrightarrow>
   fst (compute_features (ad\<lparr>language_tool_check := chk\<rparr>) text w) = Inr features' \<Longrightarrow>
   filter (\<lambda>kv. fst kv \<noteq> ''error_count'') features' =
   filter (\<lambda>kv. fst kv \<noteq> ''error_count'') features"
  by (auto simp: compute_features_def feature_runs features_checker dict_of_items_distinct
      Let_def split: sum.splits)

lemma demo_lower:
  "lower ''I'' = ''i''" "lower ''ran'' = ''ran''" "lower ''and'' = ''and''"
  "lower ''she'' = ''she''" "lower ''walked'' = ''walked''" "lower ''.'' = ''.''"
  "lower ''run'' = ''run''"
  by code_simp+

lemma demo_isalpha:
  "isalpha ''I''" "isalpha ''ran''" "isalpha ''and''" "isalpha ''she''" "isalpha ''walked''"
  "\<not> isalpha ''.''"
  by code_simp+

lemma demo_stop: "english_stopwords demo_adapters = [''i'', ''and'', ''she'', ''it'', ''was'', ''so'']"
  by (simp add: demo_adapters_def)

lemma demo_synsets:
  "synsets demo_adapters t =
     (if t = ''ran'' then
        [\<lparr>primary_lemma = ''run'', min_depth = 2\<rparr>, \<lparr>primary_lemma = ''scat'', min_depth = 4\<rparr>]
      else [])"
  by (simp add: demo_adapters_def)

lemma demo_parse: "spacy_parse demo_adapters demo_text = [demo_sentence]"
  by (simp add: demo_adapters_def)

lemma demo_word_count: "word_count demo_adapters demo_text = 5"
  by (simp add: word_count_def demo_tokens demo_isalpha)

lemma demo_avg: "avg_sentence_length demo_adapters demo_text = 5"
  by (simp add: avg_sentence_length_def demo_sentences demo_tokens demo_isalpha)

lemma demo_complex: "num_complex_sentences demo_adapters demo_text 15 = 0"
  by (simp add: num_complex_sentences_def demo_sentences demo_tokens demo_isalpha)

lemma demo_diversity: "lexical_diversity demo_adapters demo_text = 1"
  by (simp add: lexical_diversity_def demo_tokens demo_isalpha demo_lower)

lemma demo_content: "content_tokens demo_adapters (set (english_stopwords demo_adapters)) demo_text = [''ran'', ''walked'']"
  by (simp add: content_tokens_def demo_tokens demo_isalpha demo_lower demo_stop)

lemma demo_vocab: "value_of (vocabulary_sophistication demo_adapters demo_text) = 3 / 10"
  by (simp add: value_of_def vocabulary_sophistication_def get_stopwords_eq demo_content
      demo_synsets)

lemma demo_polysemy: "value_of (polysemy_word demo_adapters demo_text) = 1"
  by (simp add: value_of_def polysemy_word_def get_stopwords_eq demo_content demo_synsets)

lemma demo_type: "sentence_type demo_adapters demo_text = ''simple''"
proof -
  have a: "\<not> endswith (strip demo_text) ''?''" "\<not> endswith (strip demo_text) ''!''"
    "\<not> list_ex (\<lambda>m. startswith (lower (strip demo_text)) m) complex_starters"
    "CHR '','' \<notin> set demo_text"
    by code_simp+
  then show ?thesis by (simp add: sentence_type_def)
qed

lemma demo_type_diversity: "sentence_type_diversity demo_adapters demo_text = 1 / 5"
  by (simp add: sentence_type_diversity_def demo_sentences demo_type)

lemma demo_density: "value_of (information_density demo_adapters demo_text) = 2 / 5"
  by (simp add: value_of_def information_density_def get_stopwords_eq demo_tokens demo_isalpha
      demo_lower demo_stop)

lemma demo_errors: "value_of (error_count demo_adapters demo_text) = Inr 0"
  by (simp add: error_count_value demo_adapters_def)

lemma demo_context: "value_of (context_sensitive_count demo_adapters demo_text) = 1"
  by (simp add: value_of_def context_sensitive_count_def get_nlp_eq demo_parse demo_sentence_def
      demo_synsets demo_lower)

lemma demo_wlv: "word_length_variance demo_adapters demo_text = 2.56"
  by (simp add: word_length_variance_def demo_tokens demo_isalpha np_var_def power2_eq_square)

lemma demo_sv: "syllable_variance demo_adapters demo_text = 0.16"
  by (simp add: syllable_variance_def demo_tokens demo_isalpha demo_syll np_var_def
      power2_eq_square)

lemma demo_units: "value_of (extract_t_units demo_adapters demo_text) = ([3, 3], 0)"
  apply (simp add: value_of_def extract_t_units_def get_nlp_eq demo_parse sentence_step_def demo_sentence_def is_t_unit_boundary_def children_def dependent_clause_labels_def)
  done

lemma demo_num_units: "value_of (num_t_units demo_adapters demo_text) = 2"
  by (simp only: value_of_def [of "num_t_units demo_adapters demo_text"])
     (simp add: num_t_units_def extract_t_units_run demo_units)

lemma demo_mean_units: "value_of (mean_length_t_unit demo_adapters demo_text) = 3"
  by (simp only: value_of_def [of "mean_length_t_unit demo_adapters demo_text"])
     (simp add: mean_length_t_unit_def extract_t_units_run demo_units)

lemma demo_dep_units: "value_of (dependent_clauses_per_t_unit demo_adapters demo_text) = 0"
  by (simp only: value_of_def [of "dependent_clauses_per_t_unit demo_adapters demo_text"])
     (simp add: dependent_clauses_per_t_unit_def extract_t_units_run demo_units)

lemma demo_ref_value: "value_of (referential_cohesion demo_adapters demo_text) = 0"
  by (simp add: value_of_def demo_ref)

lemma demo_ease: "value_of (text_ease demo_adapters demo_text) = 37 / 70"
  by (simp only: value_of_def [of "text_ease demo_adapters demo_text"])
     (simp add: text_ease_def demo_fk demo_simp demo_ref demo_deep)

lemma demo_features:
  "fst (compute_features demo_adapters demo_text w) =
     Inr [(''word_count'', PyInt 5),
          (''avg_sentence_length'', PyFloat 5),
          (''num_complex_sentences'', PyInt 0),
          (''lexical_diversity'', PyFloat 1),
          (''vocabulary_sophistication'', PyFloat (3 / 10)),
          (''polysemy_word'', PyInt 1),
          (''sentence_type_diversity'', PyFloat (1 / 5)),
          (''syntactic_simplicity'', PyFloat (5 / 7)),
          (''information_density'', PyFloat (2 / 5)),
          (''error_count'', PyInt 0),
          (''context_sensitive_count'', PyInt 1),
          (''flesch_kincaid_grade_level'', PyFloat (13 / 25)),
          (''text_ease'', PyFloat (37 / 70)),
          (''referential_cohesion'', PyFloat 0),
          (''deep_cohesion'', PyFloat 0),
          (''word_length_variance'', PyFloat (64 / 25)),
          (''syllable_variance'', PyFloat (4 / 25)),
          (''num_t_units'', PyInt 2),
          (''mean_length_t_unit'', PyFloat 3),
          (''dependent_clauses_per_t_unit'', PyFloat 0)]"
  by (simp add: compute_features_def feature_runs Let_def dict_of_items_distinct
      demo_word_count demo_avg demo_complex demo_diversity demo_vocab demo_polysemy
      demo_type_diversity demo_simp demo_density demo_errors demo_context demo_fk demo_ease
      demo_ref_value demo_deep demo_wlv demo_sv demo_num_units demo_mean_units demo_dep_units)

lemma demo_record:
  "fst (extract_features demo_adapters ''OST_'' (PyStr demo_text) w) = Inr (demo_record_for 0)"
proof -
  have "demo_text \<noteq> []" by (simp add: demo_text_def)
  then show ?thesis by (simp add: extract_features_text demo_features demo_record_for_def)
qed

subsection \<open>Failure of the grammar checker\<close>

lemma extract_features_checker:
  assumes "fst (extract_features ad pfx x w) = Inr features"
    and "fst (extract_features (ad\<lparr>language_tool_check := chk\<rparr>) pfx x w) = Inr features'"
  shows "filter (\<lambda>kv. fst kv \<noteq> pfx @ ''error_count'') features' =
         filter (\<lambda>kv. fst kv \<noteq> pfx @ ''error_count'') features"
proof (cases x rule: input_cases)
  case (raises e)
  with assms show ?thesis by (simp add: extract_features_truth_raises)
next
  case (degenerate t)
  with assms show ?thesis by (simp add: extract_features_degenerate)
next
  case (nonempty s)
  note x = nonempty(1) and ne = nonempty(2)
  from assms(1) x ne obtain fs where
    fs: "fst (compute_features ad s w) = Inr fs" "features = map (\<lambda>(k, v). (pfx @ k, v)) fs"
    by (auto simp: extract_features_text split: sum.splits)
  from assms(2) x ne obtain fs' where
    fs': "fst (compute_features (ad\<lparr>language_tool_check := chk\<rparr>) s w) = Inr fs'"
      "features' = map (\<lambda>(k, v). (pfx @ k, v)) fs'"
    by (auto simp: extract_features_text split: sum.splits)
  have "filter (\<lambda>kv. fst kv \<noteq> ''error_count'') fs' =
        filter (\<lambda>kv. fst kv \<noteq> ''error_count'') fs"
    using fs(1) fs'(1) by (rule compute_features_checker)
  then have "map (\<lambda>(k, v). (pfx @ k, v)) (filter (\<lambda>kv. fst kv \<noteq> ''error_count'') fs') =
        map (\<lambda>(k, v). (pfx @ k, v)) (filter (\<lambda>kv. fst kv \<noteq> ''error_count'') fs)"
    by simp
  with fs(2) fs'(2) show ?thesis
    by (simp add: filter_map comp_def case_prod_unfold)
qed

text \<open>
  C6, as amended. When the call of the grammar checker raises, \<open>error_count\<close> raises the
  same exception after that one request, and so does \<open>extract\<close>: no record is returned
  for the document. When the call returns, \<open>error_count\<close> is the number of matches, and
  what the checker answers changes no other entry of the record.
\<close>

theorem grammar_check_failure_propagates:
  "(10 \<le> length text \<and> language_tool_check ad text = Inl e \<longrightarrow>
      fst (error_count ad text w) = Inl e \<and>
      fst (extract_features ad pfx (PyStr text) w) = Inl e \<and>
      check_requests (snd (extract_features ad pfx (PyStr text) w)) =
        check_requests w @ [text]) \<and>
   (10 \<le> length text \<and> language_tool_check ad text = Inr matches \<longrightarrow>
      fst (error_count ad text w) = Inr (length matches)) \<and>
   (fst (extract_features ad pfx x w) = Inr features \<and>
    fst (extract_features (ad\<lparr>language_tool_check := chk\<rparr>) pfx x w) = Inr features' \<longrightarrow>
      filter (\<lambda>kv. fst kv \<noteq> pfx @ ''error_count'') features' =
      filter (\<lambda>kv. fst kv \<noteq> pfx @ ''error_count'') features)"
proof -
  have raise: "fst (error_count ad text w) = Inl e \<and>
      fst (extract_features ad pfx (PyStr text) w) = Inl e \<and>
      check_requests (snd (extract_features ad pfx (PyStr text) w)) = check_requests w @ [text]"
    if a: "10 \<le> length text \<and> language_tool_check ad text = Inl e"
  proof -
    from a have v: "value_of (error_count ad text) = Inl e"
      by (simp add: error_count_value)
    from a have ne: "text \<noteq> []" by auto
    from v have "fst (compute_features ad text w) = Inl e"
      by (rule compute_features_raises)
    with v ne show ?thesis
      by (simp add: error_count_run extract_features_text compute_features_world)
  qed
  have ok: "10 \<le> length text \<and> language_tool_check ad text = Inr matches \<longrightarrow>
      fst (error_count ad text w) = Inr (length matches)"
    by (simp add: error_count_run error_count_value)
  from raise ok extract_features_checker [of ad pfx x w features chk features']
  show ?thesis by blast
qed

text \<open>
  C6 as stated fails: with a checker whose call fails, \<open>error_count\<close> on \<open>demo_text\<close> is
  not 0 but the exception, \<open>extract\<close> ends with it, and the checker was asked once.
\<close>

theorem grammar_check_failure_counterexample:
  "fst (error_count failing_adapters demo_text fresh_world) = Inl LanguageToolError \<and>
   fst (error_count failing_adapters demo_text fresh_world) \<noteq> Inr 0 \<and>
   fst (extract_features failing_adapters ''OST_'' (PyStr demo_text) fresh_world) =
     Inl LanguageToolError \<and>
   (\<forall>features.
      fst (extract_features failing_adapters ''OST_'' (PyStr demo_text) fresh_world) \<noteq>
      Inr features) \<and>
   check_requests (snd (extract_features failing_adapters ''OST_'' (PyStr demo_text) fresh_world))
     = [demo_text]"
proof -
  have v: "value_of (error_count failing_adapters demo_text) = Inl LanguageToolError"
    by (simp add: error_count_value demo_text_length failing_adapters_def)
  have ne: "demo_text \<noteq> []"
    by (simp add: demo_text_def)
  from compute_features_raises [OF v] v ne show ?thesis
    by (simp add: error_count_run extract_features_text compute_features_world fresh_world_def)
qed

lemma flagging_record:
  "fst (extract_features flagging_adapters ''OST_'' (PyStr demo_text) w) =
     Inr (demo_record_for 1)"
proof -
  have ne: "demo_text \<noteq> []" by (simp add: demo_text_def)
  have err: "value_of (error_count (demo_adapters\<lparr>language_tool_check := (\<lambda>s. Inr [''UPPERCASE''])\<rparr>)
      demo_text) = Inr 1"
    by (simp add: error_count_value demo_text_length)
  from ne show ?thesis
    by (simp add: flagging_adapters_def demo_record_for_def
      extract_features_text compute_features_def feature_runs features_checker
      Let_def dict_of_items_distinct err
      demo_word_count demo_avg demo_complex demo_diversity demo_vocab demo_polysemy
      demo_type_diversity demo_simp demo_density demo_context demo_fk demo_ease
      demo_ref_value demo_deep demo_wlv demo_sv demo_num_units demo_mean_units demo_dep_units)
qed

theorem grammar_check_failure_propagates_witness:
  "10 \<le> length demo_text \<and>
   language_tool_check failing_adapters demo_text = Inl LanguageToolError \<and>
   fst (extract_features failing_adapters [] (PyStr demo_text) fresh_world) =
     Inl LanguageToolError \<and>
   language_tool_check flagging_adapters demo_text = Inr [''UPPERCASE''] \<and>
   fst (error_count flagging_adapters demo_text fresh_world) = Inr 1 \<and>
   fst (extract_features demo_adapters ''OST_'' (PyStr demo_text) fresh_world) =
     Inr (demo_record_for 0) \<and>
   fst (extract_features flagging_adapters ''OST_'' (PyStr demo_text) fresh_world) =
     Inr (demo_record_for 1) \<and>
   demo_record_for 1 \<noteq> demo_record_for 0 \<and>
   filter (\<lambda>kv. fst kv \<noteq> ''OST_'' @ ''error_count'') (demo_record_for 1) =
   filter (\<lambda>kv. fst kv \<noteq> ''OST_'' @ ''error_count'') (demo_record_for 0)"
proof -
  have a: "10 \<le> length demo_text \<and>
      language_tool_check failing_adapters demo_text = Inl LanguageToolError"
    by (simp add: demo_text_length failing_adapters_def)
  have b: "10 \<le> length demo_text \<and>
      language_tool_check flagging_adapters demo_text = Inr [''UPPERCASE'']"
    by (simp add: demo_text_length flagging_adapters_def)
  have r0: "fst (extract_features demo_adapters ''OST_'' (PyStr demo_text) fresh_world) =
      Inr (demo_record_for 0)"
    by (rule demo_record)
  have r1: "fst (extract_features (demo_adapters\<lparr>language_tool_check := (\<lambda>s. Inr [''UPPERCASE''])\<rparr>)
      ''OST_'' (PyStr demo_text) fresh_world) = Inr (demo_record_for 1)"
    using flagging_record [of fresh_world] by (simp only: flagging_adapters_def)
  have ne: "demo_record_for 1 \<noteq> demo_record_for 0"
    by (simp add: demo_record_for_def)
  from grammar_check_failure_propagates [of demo_text failing_adapters LanguageToolError
      fresh_world "[]"] a
  have c: "fst (extract_features failing_adapters [] (PyStr demo_text) fresh_world) =
      Inl LanguageToolError"
    by blast
  from grammar_check_failure_propagates [of demo_text flagging_adapters _ fresh_world _
      "[''UPPERCASE'']"] b
  have d: "fst (error_count flagging_adapters demo_text fresh_world) = Inr 1"
    by simp
  from grammar_check_failure_propagates [of _ demo_adapters _ fresh_world "''OST_''" _
      "PyStr demo_text" "demo_record_for 0" "\<lambda>s. Inr [''UPPERCASE'']" "demo_record_for 1"]
    r0 r1
  have e: "filter (\<lambda>kv. fst kv \<noteq> ''OST_'' @ ''error_count'') (demo_record_for 1) =
      filter (\<lambda>kv. fst kv \<noteq> ''OST_'' @ ''error_count'') (demo_record_for 0)"
    by blast
  from a b c d e ne r0 flagging_record [of fresh_world] show ?thesis by blast
qed

subsection \<open>The extractor on the test doubles\<close>

text \<open>
  C1 as stated fails on two inputs: a text of ten characters or more on which the grammar
  checker fails gives no record, and neither does a value such as \<open>pandas.NA\<close>, whose
  truth test raises before the test for a string is reached.
\<close>

theorem extract_features_keys_counterexample:
  "(\<forall>features.
      fst (extract_features failing_adapters ''OST_'' (PyStr demo_text) fresh_world) \<noteq>
      Inr features) \<and>
   \<not> isinstance_str (PyOther (Inl TypeError)) \<and>
   fst (extract_features demo_adapters ''OST_'' (PyOther (Inl TypeError)) fresh_world) =
     Inl TypeError"
proof -
  have v: "value_of (error_count failing_adapters demo_text) = Inl LanguageToolError"
    by (simp add: error_count_value demo_text_length failing_adapters_def)
  have ne: "demo_text \<noteq> []"
    by (simp add: demo_text_def)
  from compute_features_raises [OF v] ne show ?thesis
    by (simp add: extract_features_text extract_features_truth_raises)
qed

theorem extract_features_keys_witness:
  "truthy (PyStr demo_text) = Inr True \<and>
   fst (extract_features demo_adapters ''OST_'' (PyStr demo_text) fresh_world) =
     Inr (demo_record_for 0) \<and>
   map fst (demo_record_for 0) = map ((@) ''OST_'') FEATURE_NAMES \<and>
   length (demo_record_for 0) = 20 \<and>
   fst (extract_features demo_adapters ''OST_'' PyNone fresh_world) =
     Inr (map (\<lambda>name. (''OST_'' @ name, PyInt 0)) FEATURE_NAMES) \<and>
   fst (extract_features demo_adapters ''OST_'' (PyStr []) fresh_world) =
     Inr (map (\<lambda>name. (''OST_'' @ name, PyInt 0)) FEATURE_NAMES) \<and>
   fst (extract_features failing_adapters [] (PyNum 7) fresh_world) =
     Inr (map (\<lambda>name. (name, PyInt 0)) FEATURE_NAMES) \<and>
   fst (extract_features failing_adapters [] (PyOther (Inr True)) fresh_world) =
     Inr (map (\<lambda>name. (name, PyInt 0)) FEATURE_NAMES)"
proof -
  have t: "truthy (PyStr demo_text) = Inr True"
    by (simp add: demo_text_def)
  have ok: "\<forall>text. PyStr demo_text = PyStr text \<and> 10 \<le> length text \<longrightarrow>
      (\<exists>matches. language_tool_check demo_adapters text = Inr matches)"
    by (simp add: demo_adapters_def)
  from extract_features_keys [OF t ok, of "''OST_''" fresh_world] demo_record [of fresh_world]
  have a: "map fst (demo_record_for 0) = map ((@) ''OST_'') FEATURE_NAMES \<and>
      length (demo_record_for 0) = 20"
    by auto
  from extract_features_keys [of PyNone False demo_adapters "''OST_''" fresh_world]
  have b: "fst (extract_features demo_adapters ''OST_'' PyNone fresh_world) =
     Inr (map (\<lambda>name. (''OST_'' @ name, PyInt 0)) FEATURE_NAMES)"
    by auto
  from extract_features_keys [of "PyStr []" False demo_adapters "''OST_''" fresh_world]
  have c: "fst (extract_features demo_adapters ''OST_'' (PyStr []) fresh_world) =
     Inr (map (\<lambda>name. (''OST_'' @ name, PyInt 0)) FEATURE_NAMES)"
    by auto
  from extract_features_keys [of "PyNum 7" True failing_adapters "[]" fresh_world]
  have d: "fst (extract_features failing_adapters [] (PyNum 7) fresh_world) =
     Inr (map (\<lambda>name. (name, PyInt 0)) FEATURE_NAMES)"
    by auto
  from extract_features_keys [of "PyOther (Inr True)" True failing_adapters "[]" fresh_world]
  have e: "fst (extract_features failing_adapters [] (PyOther (Inr True)) fresh_world) =
     Inr (map (\<lambda>name. (name, PyInt 0)) FEATURE_NAMES)"
    by auto
  from t a b c d e demo_record [of fresh_world] show ?thesis by blast
qed

theorem extract_features_idempotent_witness:
  "fst (extract_features demo_adapters ''OST_'' (PyStr demo_text) fresh_world) =
     Inr (demo_record_for 0) \<and>
   fst (extract_features demo_adapters ''OST_'' (PyStr demo_text)
         (snd (extract_features demo_adapters ''OST_'' (PyStr demo_text) fresh_world))) =
     Inr (demo_record_for 0) \<and>
   globals_of fresh_world = (True, False, False) \<and>
   globals_of (snd (extract_features demo_adapters ''OST_'' (PyStr demo_text) fresh_world)) =
     (True, True, True) \<and>
   globals_of (snd (extract_features demo_adapters ''OST_'' (PyStr demo_text)
         (snd (extract_features demo_adapters ''OST_'' (PyStr demo_text) fresh_world)))) =
     (True, True, True)"
  using extract_features_idempotent [of demo_adapters "''OST_''" "PyStr demo_text" fresh_world
      fresh_world] demo_record [of fresh_world]
  by (simp add: demo_world globals_of_def) (simp add: fresh_world_def)

end
